theory Spec2Isabelle
  imports Complex_Main
begin

section \<open>Python and NumPy values\<close>

text \<open>
  A float is modelled by its value: a real number, one of the two infinities, or NaN.
  Arithmetic follows IEEE 754 on the special values (a result is NaN exactly where the
  standard says so); on finite values it is exact, so rounding and overflow of finite
  results are not modelled, and neither is the sign of zero (a division by zero takes the
  sign of the dividend). Python integers are embedded as the finite values they denote.
\<close>

datatype pyfloat = Finite real | PosInf | NegInf | NaN

datatype py_error = IndexError | KeyError | ValueError | OverflowError | TypeError
  | ZeroDivisionError | AttributeError

definition ebind :: "py_error + 'a \<Rightarrow> ('a \<Rightarrow> py_error + 'b) \<Rightarrow> py_error + 'b" where
  "ebind m f = (case m of Inl e \<Rightarrow> Inl e | Inr v \<Rightarrow> f v)"

text \<open>\<^verbatim>\<open>try: body except: return fallback\<close>: every exception of the body is caught.\<close>

definition try_except :: "py_error + 'a \<Rightarrow> 'a \<Rightarrow> py_error + 'a" where
  "try_except body fallback = (case body of Inl e \<Rightarrow> Inr fallback | Inr v \<Rightarrow> Inr v)"

text \<open>A \<^verbatim>\<open>try\<close> block that covers the whole function: the function returns a value.\<close>

definition catch :: "py_error + 'a \<Rightarrow> 'a \<Rightarrow> 'a" where
  "catch body fallback = (case body of Inl e \<Rightarrow> fallback | Inr v \<Rightarrow> v)"

definition isnan :: "pyfloat \<Rightarrow> bool" where
  "isnan x = (x = NaN)"

definition is_finite :: "pyfloat \<Rightarrow> bool" where
  "is_finite x = (case x of Finite _ \<Rightarrow> True | _ \<Rightarrow> False)"

definition fval :: "pyfloat \<Rightarrow> real" where
  "fval x = (case x of Finite r \<Rightarrow> r | _ \<Rightarrow> 0)"

text \<open>The sign of a value that is not NaN: -1, 0 or 1.\<close>

definition fsign :: "pyfloat \<Rightarrow> real" where
  "fsign x = (case x of Finite r \<Rightarrow> sgn r | PosInf \<Rightarrow> 1 | NegInf \<Rightarrow> - 1 | NaN \<Rightarrow> 0)"

definition inf_of_sign :: "real \<Rightarrow> pyfloat" where
  "inf_of_sign s = (if s = 0 then NaN else if s > 0 then PosInf else NegInf)"

definition fneg :: "pyfloat \<Rightarrow> pyfloat" where
  "fneg x = (case x of Finite r \<Rightarrow> Finite (- r) | PosInf \<Rightarrow> NegInf | NegInf \<Rightarrow> PosInf
     | NaN \<Rightarrow> NaN)"

definition fadd :: "pyfloat \<Rightarrow> pyfloat \<Rightarrow> pyfloat" where
  "fadd x y =
     (if isnan x \<or> isnan y then NaN
      else case (x, y) of
        (Finite a, Finite b) \<Rightarrow> Finite (a + b)
      | (Finite a, _) \<Rightarrow> y
      | (_, Finite b) \<Rightarrow> x
      | _ \<Rightarrow> (if x = y then x else NaN))"

definition fsub :: "pyfloat \<Rightarrow> pyfloat \<Rightarrow> pyfloat" where
  "fsub x y = fadd x (fneg y)"

definition fmul :: "pyfloat \<Rightarrow> pyfloat \<Rightarrow> pyfloat" where
  "fmul x y =
     (if isnan x \<or> isnan y then NaN
      else case (x, y) of
        (Finite a, Finite b) \<Rightarrow> Finite (a * b)
      | _ \<Rightarrow> inf_of_sign (fsign x * fsign y))"

text \<open>
  Division of NumPy floats (\<^verbatim>\<open>numpy.float64\<close>, array and Series division): a zero divisor
  gives an infinity or NaN and a warning, never an exception.
\<close>

definition np_div :: "pyfloat \<Rightarrow> pyfloat \<Rightarrow> pyfloat" where
  "np_div x y =
     (if isnan x \<or> isnan y then NaN
      else case (x, y) of
        (Finite a, Finite b) \<Rightarrow> (if b \<noteq> 0 then Finite (a / b) else inf_of_sign (sgn a))
      | (Finite a, _) \<Rightarrow> Finite 0
      | (_, Finite b) \<Rightarrow> (if b < 0 then fneg x else x)
      | _ \<Rightarrow> NaN)"

text \<open>Division of Python floats: a zero divisor raises \<^verbatim>\<open>ZeroDivisionError\<close>.\<close>

definition py_div :: "real \<Rightarrow> real \<Rightarrow> py_error + real" where
  "py_div a b = (if b = 0 then Inl ZeroDivisionError else Inr (a / b))"

text \<open>Comparisons: every comparison with NaN is false, except \<^verbatim>\<open>!=\<close>.\<close>

definition flt :: "pyfloat \<Rightarrow> pyfloat \<Rightarrow> bool" where
  "flt x y =
     (\<not> isnan x \<and> \<not> isnan y \<and>
      (case (x, y) of
         (Finite a, Finite b) \<Rightarrow> a < b
       | (NegInf, NegInf) \<Rightarrow> False
       | (NegInf, _) \<Rightarrow> True
       | (PosInf, _) \<Rightarrow> False
       | (_, PosInf) \<Rightarrow> True
       | _ \<Rightarrow> False))"

definition fgt :: "pyfloat \<Rightarrow> pyfloat \<Rightarrow> bool" where
  "fgt x y = flt y x"

definition feq :: "pyfloat \<Rightarrow> pyfloat \<Rightarrow> bool" where
  "feq x y = (\<not> isnan x \<and> x = y)"

definition fge :: "pyfloat \<Rightarrow> pyfloat \<Rightarrow> bool" where
  "fge x y = (fgt x y \<or> feq x y)"

definition fne :: "pyfloat \<Rightarrow> pyfloat \<Rightarrow> bool" where
  "fne x y = (\<not> feq x y)"

definition fabs :: "pyfloat \<Rightarrow> pyfloat" where
  "fabs x = (case x of Finite r \<Rightarrow> Finite \<bar>r\<bar> | NaN \<Rightarrow> NaN | _ \<Rightarrow> PosInf)"

definition fsqrt :: "pyfloat \<Rightarrow> pyfloat" where
  "fsqrt x = (case x of Finite r \<Rightarrow> (if r < 0 then NaN else Finite (sqrt r)) | PosInf \<Rightarrow> PosInf
     | _ \<Rightarrow> NaN)"

text \<open>\<^verbatim>\<open>numpy.maximum\<close> and \<^verbatim>\<open>numpy.minimum\<close>: NaN if either argument is NaN.\<close>

definition np_maximum :: "pyfloat \<Rightarrow> pyfloat \<Rightarrow> pyfloat" where
  "np_maximum x y = (if isnan x \<or> isnan y then NaN else if flt x y then y else x)"

definition np_minimum :: "pyfloat \<Rightarrow> pyfloat \<Rightarrow> pyfloat" where
  "np_minimum x y = (if isnan x \<or> isnan y then NaN else if flt y x then y else x)"

text \<open>
  \<^verbatim>\<open>int(x)\<close> truncates towards zero; it raises \<^verbatim>\<open>ValueError\<close> on NaN and
  \<^verbatim>\<open>OverflowError\<close> on an infinity.
\<close>

definition py_int :: "pyfloat \<Rightarrow> py_error + int" where
  "py_int x =
     (case x of
        Finite r \<Rightarrow> Inr (if r \<ge> 0 then \<lfloor>r\<rfloor> else \<lceil>r\<rceil>)
      | NaN \<Rightarrow> Inl ValueError
      | _ \<Rightarrow> Inl OverflowError)"

text \<open>
  Values of a dictionary: \<^verbatim>\<open>None\<close>, a number, a string, or the string that an f-string
  builds from a float with a fixed number of decimals: \<open>PFmt p x d s\<close> stands for
  the text \<open>p\<close>, then \<open>x\<close> printed with \<open>d\<close> decimals, then \<open>s\<close>.
\<close>

datatype pyval = PNone | PNum pyfloat | PStr string | PFmt string pyfloat nat string

type_synonym info_dict = "string \<Rightarrow> pyval option"

definition dict_get :: "('k \<Rightarrow> 'v option) \<Rightarrow> 'k \<Rightarrow> 'v \<Rightarrow> 'v" where
  "dict_get d k dflt = (case d k of None \<Rightarrow> dflt | Some v \<Rightarrow> v)"

section \<open>Sequences and pandas Series\<close>

text \<open>\<^verbatim>\<open>xs[k]\<close> and \<^verbatim>\<open>s.iloc[k]\<close>: a negative position counts from the end.\<close>

definition iloc :: "'a list \<Rightarrow> int \<Rightarrow> py_error + 'a" where
  "iloc xs k =
     (if 0 \<le> k \<and> k < int (length xs) then Inr (xs ! nat k)
      else if k < 0 \<and> - k \<le> int (length xs) then Inr (xs ! nat (int (length xs) + k))
      else Inl IndexError)"

text \<open>
  The pandas operations below follow the library's documented behaviour on a float
  Series. Reductions skip NaN (\<^verbatim>\<open>skipna=True\<close>) and give NaN when nothing is left.
\<close>

definition not_nan :: "pyfloat list \<Rightarrow> pyfloat list" where
  "not_nan xs = filter (\<lambda>x. \<not> isnan x) xs"

definition series_max :: "pyfloat list \<Rightarrow> pyfloat" where
  "series_max xs = (case not_nan xs of [] \<Rightarrow> NaN | y # ys \<Rightarrow> fold np_maximum ys y)"

definition series_min :: "pyfloat list \<Rightarrow> pyfloat" where
  "series_min xs = (case not_nan xs of [] \<Rightarrow> NaN | y # ys \<Rightarrow> fold np_minimum ys y)"

definition fsum :: "pyfloat list \<Rightarrow> pyfloat" where
  "fsum xs = fold (\<lambda>x acc. fadd acc x) xs (Finite 0)"

definition series_mean :: "pyfloat list \<Rightarrow> pyfloat" where
  "series_mean xs =
     (case not_nan xs of [] \<Rightarrow> NaN | ys \<Rightarrow> np_div (fsum ys) (Finite (real (length ys))))"

text \<open>\<^verbatim>\<open>s.diff()\<close>: the first entry is NaN.\<close>

definition diff :: "pyfloat list \<Rightarrow> pyfloat list" where
  "diff xs = map (\<lambda>i. if i = 0 then NaN else fsub (xs ! i) (xs ! (i - 1))) [0..<length xs]"

text \<open>\<^verbatim>\<open>s.where(cond, other)\<close>: the entry where the condition holds, else \<open>other\<close>.\<close>

definition where_series :: "(pyfloat \<Rightarrow> bool) \<Rightarrow> pyfloat \<Rightarrow> pyfloat list \<Rightarrow> pyfloat list" where
  "where_series cond other xs = map (\<lambda>x. if cond x then x else other) xs"

text \<open>
  \<^verbatim>\<open>s.rolling(window=w)\<close>: the window at position \<open>i\<close> holds the last \<open>w\<close> entries up to
  \<open>i\<close> (fewer at the start). \<^verbatim>\<open>min_periods\<close> defaults to \<open>w\<close>, and infinities count as
  missing, so the result is NaN unless the window holds \<open>w\<close> finite entries.
\<close>

definition window_at :: "nat \<Rightarrow> 'a list \<Rightarrow> nat \<Rightarrow> 'a list" where
  "window_at w xs i = drop (Suc i - w) (take (Suc i) xs)"

definition full_window :: "nat \<Rightarrow> pyfloat list \<Rightarrow> bool" where
  "full_window w win \<longleftrightarrow> 0 < w \<and> length win = w \<and> list_all is_finite win"

definition mean_real :: "real list \<Rightarrow> real" where
  "mean_real rs = sum_list rs / real (length rs)"

definition rolling_mean :: "nat \<Rightarrow> pyfloat list \<Rightarrow> pyfloat list" where
  "rolling_mean w xs =
     map (\<lambda>i. let win = window_at w xs i
               in if full_window w win then Finite (mean_real (map fval win)) else NaN)
       [0..<length xs]"

text \<open>\<^verbatim>\<open>rolling(w).std()\<close> is the sample standard deviation (\<^verbatim>\<open>ddof=1\<close>).\<close>

definition sample_var :: "real list \<Rightarrow> real" where
  "sample_var rs = sum_list (map (\<lambda>r. (r - mean_real rs)\<^sup>2) rs) / (real (length rs) - 1)"

definition rolling_std :: "nat \<Rightarrow> pyfloat list \<Rightarrow> pyfloat list" where
  "rolling_std w xs =
     map (\<lambda>i. let win = window_at w xs i
               in if full_window w win \<and> 1 < w then Finite (sqrt (sample_var (map fval win)))
                  else NaN)
       [0..<length xs]"

text \<open>
  \<^verbatim>\<open>s.ewm(span=n).mean()\<close> with the defaults \<^verbatim>\<open>adjust=True, ignore_na=False,
  min_periods=0\<close>, as the library's loop computes it: the state is the running weighted
  average and the weight of the past.
\<close>

definition ewm_step :: "real \<Rightarrow> pyfloat \<times> pyfloat \<Rightarrow> pyfloat \<Rightarrow> pyfloat \<times> pyfloat" where
  "ewm_step alpha st cur =
     (let (weighted, old_wt) = st
      in if \<not> isnan weighted then
           (let old_wt = fmul old_wt (Finite (1 - alpha))
            in if \<not> isnan cur then
                 (if weighted \<noteq> cur
                  then (np_div (fadd (fmul old_wt weighted) cur) (fadd old_wt (Finite 1)),
                        fadd old_wt (Finite 1))
                  else (weighted, fadd old_wt (Finite 1)))
               else (weighted, old_wt))
         else if \<not> isnan cur then (cur, old_wt)
         else (weighted, old_wt))"

fun ewm_run :: "real \<Rightarrow> pyfloat \<times> pyfloat \<Rightarrow> pyfloat list \<Rightarrow> pyfloat list" where
  "ewm_run alpha st [] = []"
| "ewm_run alpha st (x # xs) = (let st' = ewm_step alpha st x in fst st' # ewm_run alpha st' xs)"

definition ewm_mean :: "nat \<Rightarrow> pyfloat list \<Rightarrow> pyfloat list" where
  "ewm_mean n xs =
     (case xs of [] \<Rightarrow> []
      | x # rest \<Rightarrow> x # ewm_run (2 / (real n + 1)) (x, Finite 1) rest)"

section \<open>Price data\<close>

text \<open>
  A price DataFrame as the provider delivers it: one row per trading day with the float
  columns Open, High, Low, Close and Volume. \<^verbatim>\<open>data['Close']\<close> is \<open>map Close data\<close>,
  \<^verbatim>\<open>len(data)\<close> is \<open>length data\<close>, and \<^verbatim>\<open>data.empty\<close> is \<open>data = []\<close>.
\<close>

record bar =
  Date :: string
  Open :: pyfloat
  High :: pyfloat
  Low :: pyfloat
  Close :: pyfloat
  Volume :: pyfloat

type_synonym dataframe = "bar list"

section \<open>MetricsCalculator (utils/metrics\_calculator.py)\<close>

text \<open>
  \<^verbatim>\<open>_format_market_cap\<close>: \<^verbatim>\<open>None\<close>, 0 and the empty string are falsy and give N/A; on
  another string the comparison with \<^verbatim>\<open>1e12\<close> raises \<^verbatim>\<open>TypeError\<close>.
\<close>

definition format_market_cap :: "pyval \<Rightarrow> py_error + pyval" where
  "format_market_cap market_cap =
     (case market_cap of
        PNone \<Rightarrow> Inr (PStr ''N/A'')
      | PStr s \<Rightarrow> (if s = [] then Inr (PStr ''N/A'') else Inl TypeError)
      | PFmt p x d s \<Rightarrow> Inl TypeError
      | PNum x \<Rightarrow>
          (if feq x (Finite 0) then Inr (PStr ''N/A'')
           else if fge x (Finite (10 ^ 12)) then Inr (PFmt ''$'' (np_div x (Finite (10 ^ 12))) 2 ''T'')
           else if fge x (Finite (10 ^ 9)) then Inr (PFmt ''$'' (np_div x (Finite (10 ^ 9))) 2 ''B'')
           else if fge x (Finite (10 ^ 6)) then Inr (PFmt ''$'' (np_div x (Finite (10 ^ 6))) 2 ''M'')
           else Inr (PFmt ''$'' x 0 [])))"

text \<open>
  \<^verbatim>\<open>_format_percentage\<close>: on a string, \<^verbatim>\<open>value * 100\<close> repeats the string and the
  float format code then raises \<^verbatim>\<open>ValueError\<close>.
\<close>

definition format_percentage :: "pyval \<Rightarrow> py_error + pyval" where
  "format_percentage v =
     (case v of
        PNone \<Rightarrow> Inr (PStr ''N/A'')
      | PNum x \<Rightarrow>
          (if feq x (Finite 0) then Inr (PStr ''N/A'')
           else Inr (PFmt [] (fmul x (Finite 100)) 2 ''%''))
      | _ \<Rightarrow> Inl ValueError)"

text \<open>A Python integer as a dictionary value.\<close>

definition int_val :: "int \<Rightarrow> pyval" where
  "int_val k = PNum (Finite (of_int k))"

text \<open>The body of the \<^verbatim>\<open>try\<close> block of \<^verbatim>\<open>calculate_metrics\<close>.\<close>

definition calculate_metrics_body :: "dataframe \<Rightarrow> info_dict \<Rightarrow> py_error + (string \<times> pyval) list" where
  "calculate_metrics_body data info =
     ebind (iloc (map Close data) (- 1)) (\<lambda>current_price.
     ebind (if length data > 1 then iloc (map Close data) (- 2) else Inr current_price)
       (\<lambda>previous_price.
     let price_change = fsub current_price previous_price;
         percent_change =
           (if fne previous_price (Finite 0)
            then fmul (np_div price_change previous_price) (Finite 100) else Finite 0);
         high_52w = series_max (map High data);
         low_52w = series_min (map Low data);
         avg_volume = series_mean (map Volume data)
     in
     ebind (iloc (map Volume data) (- 1)) (\<lambda>current_volume.
     ebind (format_market_cap (dict_get info ''marketCap'' (PNum (Finite 0)))) (\<lambda>market_cap.
     ebind (py_int current_volume) (\<lambda>volume_int.
     ebind (py_int avg_volume) (\<lambda>avg_volume_int.
     ebind (format_percentage (dict_get info ''dividendYield'' (PNum (Finite 0))))
       (\<lambda>dividend_yield.
     Inr [(''Current Price'', PNum current_price),
          (''Price Change'', PNum price_change),
          (''Percent Change'', PNum percent_change),
          (''Volume'', int_val volume_int),
          (''Avg Volume'', int_val avg_volume_int),
          (''Market Cap'', market_cap),
          (''P/E Ratio'', dict_get info ''trailingPE'' (PStr ''N/A'')),
          (''52W High'', PNum high_52w),
          (''52W Low'', PNum low_52w),
          (''Beta'', dict_get info ''beta'' (PStr ''N/A'')),
          (''Dividend Yield'', dividend_yield)])))))))"

text \<open>
  \<^verbatim>\<open>calculate_metrics\<close>. The argument is a DataFrame or \<^verbatim>\<open>None\<close> (what the fetcher
  returns for a symbol without data). The test \<^verbatim>\<open>data.empty\<close> stands before the \<^verbatim>\<open>try\<close>:
  on \<^verbatim>\<open>None\<close> its \<^verbatim>\<open>AttributeError\<close> reaches the caller (\<open>Inl\<close>). \<open>Inr []\<close> is the empty
  mapping.
\<close>

definition calculate_metrics ::
    "dataframe option \<Rightarrow> info_dict \<Rightarrow> py_error + (string \<times> pyval) list" where
  "calculate_metrics data info =
     (case data of
        None \<Rightarrow> Inl AttributeError
      | Some df \<Rightarrow> if df = [] then Inr [] else try_except (calculate_metrics_body df info) [])"

text \<open>
  \<^verbatim>\<open>_calculate_rsi\<close>: the rolling means of the gains and of the losses, the RSI series and
  its last entry, replaced by 50 when it is NaN.
\<close>

definition rsi_gain :: "nat \<Rightarrow> pyfloat list \<Rightarrow> pyfloat list" where
  "rsi_gain period prices =
     rolling_mean period (where_series (\<lambda>d. fgt d (Finite 0)) (Finite 0) (diff prices))"

definition rsi_loss :: "nat \<Rightarrow> pyfloat list \<Rightarrow> pyfloat list" where
  "rsi_loss period prices =
     rolling_mean period
       (map fneg (where_series (\<lambda>d. flt d (Finite 0)) (Finite 0) (diff prices)))"

definition rsi_series :: "nat \<Rightarrow> pyfloat list \<Rightarrow> pyfloat list" where
  "rsi_series period prices =
     map2 (\<lambda>gain loss.
        let rs = np_div gain loss
        in fsub (Finite 100) (np_div (Finite 100) (fadd (Finite 1) rs)))
       (rsi_gain period prices) (rsi_loss period prices)"

definition calculate_rsi_period :: "nat \<Rightarrow> pyfloat list \<Rightarrow> pyfloat" where
  "calculate_rsi_period period prices =
     catch
       (ebind (iloc (rsi_series period prices) (- 1))
          (\<lambda>r. Inr (if \<not> isnan r then r else Finite 50)))
       (Finite 50)"

text \<open>\<^verbatim>\<open>_calculate_rsi(prices)\<close> with the default \<^verbatim>\<open>period=14\<close>.\<close>

definition calculate_rsi :: "pyfloat list \<Rightarrow> pyfloat" where
  "calculate_rsi prices = calculate_rsi_period 14 prices"

text \<open>\<^verbatim>\<open>_calculate_bollinger_bands\<close>: the last entries of the two bands.\<close>

definition calculate_bollinger_bands_params ::
    "nat \<Rightarrow> real \<Rightarrow> pyfloat list \<Rightarrow> pyfloat \<times> pyfloat" where
  "calculate_bollinger_bands_params period std_dev prices =
     catch
       (let sma = rolling_mean period prices;
            std = rolling_std period prices;
            upper_band = map2 (\<lambda>m s. fadd m (fmul s (Finite std_dev))) sma std;
            lower_band = map2 (\<lambda>m s. fsub m (fmul s (Finite std_dev))) sma std
        in ebind (iloc upper_band (- 1)) (\<lambda>u.
           ebind (iloc lower_band (- 1)) (\<lambda>l. Inr (u, l))))
       (Finite 0, Finite 0)"

text \<open>\<^verbatim>\<open>_calculate_bollinger_bands(prices)\<close> with the defaults \<^verbatim>\<open>period=20, std_dev=2\<close>.\<close>

definition calculate_bollinger_bands :: "pyfloat list \<Rightarrow> pyfloat \<times> pyfloat" where
  "calculate_bollinger_bands prices = calculate_bollinger_bands_params 20 2 prices"

text \<open>\<^verbatim>\<open>_calculate_macd\<close> with the defaults \<^verbatim>\<open>fast=12, slow=26, signal=9\<close>.\<close>

definition calculate_macd_params ::
    "nat \<Rightarrow> nat \<Rightarrow> nat \<Rightarrow> pyfloat list \<Rightarrow> pyfloat \<times> pyfloat" where
  "calculate_macd_params fast slow signal prices =
     catch
       (let ema_fast = ewm_mean fast prices;
            ema_slow = ewm_mean slow prices;
            macd_line = map2 fsub ema_fast ema_slow;
            macd_signal = ewm_mean signal macd_line
        in ebind (iloc macd_line (- 1)) (\<lambda>m.
           ebind (iloc macd_signal (- 1)) (\<lambda>s. Inr (m, s))))
       (Finite 0, Finite 0)"

definition calculate_macd :: "pyfloat list \<Rightarrow> pyfloat \<times> pyfloat" where
  "calculate_macd prices = calculate_macd_params 12 26 9 prices"

text \<open>The body of the \<^verbatim>\<open>try\<close> block of \<^verbatim>\<open>calculate_technical_indicators\<close>.\<close>

definition calculate_technical_indicators_body ::
    "dataframe \<Rightarrow> py_error + (string \<times> pyfloat) list" where
  "calculate_technical_indicators_body data =
     ebind (iloc (rolling_mean 20 (map Close data)) (- 1)) (\<lambda>sma_20.
     ebind (iloc (rolling_mean 50 (map Close data)) (- 1)) (\<lambda>sma_50.
     let rsi = calculate_rsi (map Close data);
         (bb_upper, bb_lower) = calculate_bollinger_bands (map Close data);
         (macd_line, macd_signal) = calculate_macd (map Close data)
     in Inr [(''sma_20'', if \<not> isnan sma_20 then sma_20 else Finite 0),
             (''sma_50'', if \<not> isnan sma_50 then sma_50 else Finite 0),
             (''rsi'', rsi),
             (''bb_upper'', bb_upper),
             (''bb_lower'', bb_lower),
             (''macd_line'', macd_line),
             (''macd_signal'', macd_signal)]))"

definition calculate_technical_indicators ::
    "dataframe option \<Rightarrow> py_error + (string \<times> pyfloat) list" where
  "calculate_technical_indicators data =
     (case data of
        None \<Rightarrow> Inl AttributeError
      | Some df \<Rightarrow>
          if df = [] then Inr [] else try_except (calculate_technical_indicators_body df) [])"

section \<open>PortfolioManager (utils/portfolio\_manager.py)\<close>

text \<open>
  A holding's shares and purchase price are Python floats entered by the user. The two
  dictionaries keep their insertion order, which the code relies on
  (\<^verbatim>\<open>next(iter(all_data.values()))\<close>): they are association lists, \<^verbatim>\<open>symbol in all_data\<close>
  is \<open>map_of all_data symbol \<noteq> None\<close>.
\<close>

record holding =
  shares :: real
  purchase_price :: real

type_synonym holdings_dict = "(string \<times> holding) list"

type_synonym price_dict = "(string \<times> dataframe) list"

text \<open>\<^verbatim>\<open>shares * purchase_price\<close> of a holding.\<close>

definition investment :: "holding \<Rightarrow> real" where
  "investment h = shares h * purchase_price h"

text \<open>\<^verbatim>\<open>sum(h['shares'] * h['purchase_price'] for h in holdings.values())\<close>\<close>

definition sum_investments :: "holdings_dict \<Rightarrow> real" where
  "sum_investments holdings = sum_list (map (\<lambda>(symbol, h). investment h) holdings)"

text \<open>
  A loop whose body may raise: \<open>efold\<close> threads an accumulator through the list,
  \<open>emap\<close> collects one result per element; the first exception ends the loop.
\<close>

fun efold :: "('s \<Rightarrow> 'a \<Rightarrow> py_error + 's) \<Rightarrow> 'a list \<Rightarrow> 's \<Rightarrow> py_error + 's" where
  "efold f [] s = Inr s"
| "efold f (x # xs) s = ebind (f s x) (efold f xs)"

fun emap :: "('a \<Rightarrow> py_error + 'b) \<Rightarrow> 'a list \<Rightarrow> py_error + 'b list" where
  "emap f [] = Inr []"
| "emap f (x # xs) = ebind (f x) (\<lambda>y. ebind (emap f xs) (\<lambda>ys. Inr (y # ys)))"

text \<open>\<^verbatim>\<open>numpy.std\<close>: the population standard deviation.\<close>

definition np_mean :: "pyfloat list \<Rightarrow> pyfloat" where
  "np_mean xs = np_div (fsum xs) (Finite (real (length xs)))"

definition np_std :: "pyfloat list \<Rightarrow> pyfloat" where
  "np_std xs =
     (let m = np_mean xs
      in fsqrt (np_mean (map (\<lambda>x. let d = fsub x m in fmul d d) xs)))"

text \<open>One holding's contribution to the portfolio return of the day \<open>i\<close> days back.\<close>

definition volatility_step ::
    "price_dict \<Rightarrow> real \<Rightarrow> nat \<Rightarrow> pyfloat \<Rightarrow> string \<times> holding \<Rightarrow> py_error + pyfloat" where
  "volatility_step all_data total_investment i daily_return entry =
     (let (symbol, holding) = entry
      in case map_of all_data symbol of
           None \<Rightarrow> Inr daily_return
         | Some df \<Rightarrow>
             if length df > i + 1 then
               ebind (py_div (shares holding * purchase_price holding) total_investment) (\<lambda>weight.
               ebind (iloc (map Close df) (- (int i + 1))) (\<lambda>price_today.
               ebind (iloc (map Close df) (- (int i + 2))) (\<lambda>price_yesterday.
               let stock_return = np_div (fsub price_today price_yesterday) price_yesterday
               in Inr (fadd daily_return (fmul (Finite weight) stock_return)))))
             else Inr daily_return)"

definition daily_portfolio_return ::
    "holdings_dict \<Rightarrow> price_dict \<Rightarrow> real \<Rightarrow> nat \<Rightarrow> py_error + pyfloat" where
  "daily_portfolio_return holdings all_data total_investment i =
     efold (volatility_step all_data total_investment i) holdings (Finite 0)"

text \<open>
  The list \<^verbatim>\<open>portfolio_returns\<close> that the loop of \<^verbatim>\<open>_calculate_portfolio_volatility\<close>
  builds: \<^verbatim>\<open>range\<close> of a negative bound is empty.
\<close>

definition portfolio_returns ::
    "holdings_dict \<Rightarrow> price_dict \<Rightarrow> nat \<Rightarrow> py_error + pyfloat list" where
  "portfolio_returns holdings all_data days =
     (case all_data of
        [] \<Rightarrow> Inr []
      | (first_symbol, first_df) # rest \<Rightarrow>
          emap (daily_portfolio_return holdings all_data (sum_investments holdings))
            [0..<nat (min (int days) (int (length first_df) - 1))])"

text \<open>\<^verbatim>\<open>_calculate_portfolio_volatility\<close>\<close>

definition calculate_portfolio_volatility_days ::
    "holdings_dict \<Rightarrow> price_dict \<Rightarrow> nat \<Rightarrow> pyfloat" where
  "calculate_portfolio_volatility_days holdings all_data days =
     catch
       (if holdings = [] \<or> all_data = [] then Inr (Finite 0)
        else ebind (portfolio_returns holdings all_data days) (\<lambda>rs.
          Inr (if rs \<noteq> [] then fmul (np_std rs) (Finite (sqrt 252)) else Finite 0)))
       (Finite 0)"

text \<open>\<^verbatim>\<open>_calculate_portfolio_volatility(holdings, all_data)\<close> with the default \<^verbatim>\<open>days=30\<close>.\<close>

definition calculate_portfolio_volatility :: "holdings_dict \<Rightarrow> price_dict \<Rightarrow> pyfloat" where
  "calculate_portfolio_volatility holdings all_data =
     calculate_portfolio_volatility_days holdings all_data 30"

text \<open>One holding's contribution to the portfolio value on bar \<open>i\<close>.\<close>

definition drawdown_step ::
    "price_dict \<Rightarrow> nat \<Rightarrow> pyfloat \<Rightarrow> string \<times> holding \<Rightarrow> py_error + pyfloat" where
  "drawdown_step all_data i daily_value entry =
     (let (symbol, holding) = entry
      in case map_of all_data symbol of
           None \<Rightarrow> Inr daily_value
         | Some df \<Rightarrow>
             ebind (iloc (map Close df) (int i)) (\<lambda>price.
             Inr (fadd daily_value (fmul (Finite (shares holding)) price))))"

text \<open>\<^verbatim>\<open>min(len(data) for data in all_data.values())\<close>\<close>

definition min_length :: "price_dict \<Rightarrow> nat" where
  "min_length all_data =
     (case all_data of [] \<Rightarrow> 0
      | (symbol, df) # rest \<Rightarrow> fold (\<lambda>(s, d) m. min (length d) m) rest (length df))"

text \<open>The list \<^verbatim>\<open>portfolio_values\<close> of \<^verbatim>\<open>_calculate_max_drawdown\<close>.\<close>

definition portfolio_values :: "holdings_dict \<Rightarrow> price_dict \<Rightarrow> py_error + pyfloat list" where
  "portfolio_values holdings all_data =
     emap (\<lambda>i. efold (drawdown_step all_data i) holdings (Finite 0)) [0..<min_length all_data]"

text \<open>\<^verbatim>\<open>numpy.maximum.accumulate\<close>: the running maximum.\<close>

fun accumulate_from :: "pyfloat \<Rightarrow> pyfloat list \<Rightarrow> pyfloat list" where
  "accumulate_from p [] = []"
| "accumulate_from p (x # xs) = np_maximum p x # accumulate_from (np_maximum p x) xs"

definition maximum_accumulate :: "pyfloat list \<Rightarrow> pyfloat list" where
  "maximum_accumulate xs = (case xs of [] \<Rightarrow> [] | x # rest \<Rightarrow> x # accumulate_from x rest)"

text \<open>\<^verbatim>\<open>numpy.min\<close> of a non-empty array: NaN if an entry is NaN.\<close>

definition np_min :: "pyfloat list \<Rightarrow> pyfloat" where
  "np_min xs = (case xs of [] \<Rightarrow> NaN | x # rest \<Rightarrow> fold (\<lambda>y m. np_minimum m y) rest x)"

text \<open>\<^verbatim>\<open>(portfolio_values - peaks) / peaks\<close>, entry by entry.\<close>

definition drawdowns :: "pyfloat list \<Rightarrow> pyfloat list" where
  "drawdowns values = map2 (\<lambda>v p. np_div (fsub v p) p) values (maximum_accumulate values)"

text \<open>\<^verbatim>\<open>_calculate_max_drawdown\<close>\<close>

definition calculate_max_drawdown :: "holdings_dict \<Rightarrow> price_dict \<Rightarrow> pyfloat" where
  "calculate_max_drawdown holdings all_data =
     catch
       (if holdings = [] \<or> all_data = [] then Inr (Finite 0)
        else ebind (portfolio_values holdings all_data) (\<lambda>values.
          Inr (if length (drawdowns values) > 0 then fabs (np_min (drawdowns values))
               else Finite 0)))
       (Finite 0)"

text \<open>The accumulators of the loop of \<^verbatim>\<open>calculate_portfolio_performance\<close>.\<close>

record perf_state =
  total_investment :: real
  current_value :: pyfloat
  total_shares :: real
  weighted_returns :: pyfloat

text \<open>The weight of a holding: its investment over the investments of all holdings.\<close>

definition holding_weight :: "holdings_dict \<Rightarrow> holding \<Rightarrow> py_error + real" where
  "holding_weight holdings h = py_div (shares h * purchase_price h) (sum_investments holdings)"

text \<open>The body of the loop over the holdings.\<close>

definition performance_step ::
    "holdings_dict \<Rightarrow> price_dict \<Rightarrow> perf_state \<Rightarrow> string \<times> holding \<Rightarrow> py_error + perf_state" where
  "performance_step holdings all_data st entry =
     (let (symbol, holding) = entry
      in case map_of all_data symbol of
           None \<Rightarrow> Inr st
         | Some df \<Rightarrow>
             ebind (iloc (map Close df) (- 1)) (\<lambda>current_price.
             let invest = shares holding * purchase_price holding;
                 val = fmul (Finite (shares holding)) current_price;
                 stock_return =
                   np_div (fsub current_price (Finite (purchase_price holding)))
                     (Finite (purchase_price holding))
             in ebind (holding_weight holdings holding) (\<lambda>weight.
                Inr \<lparr>total_investment = total_investment st + invest,
                     current_value = fadd (current_value st) val,
                     total_shares = total_shares st + shares holding,
                     weighted_returns =
                       fadd (weighted_returns st) (fmul stock_return (Finite weight))\<rparr>)))"

definition performance_loop :: "holdings_dict \<Rightarrow> price_dict \<Rightarrow> py_error + perf_state" where
  "performance_loop holdings all_data =
     efold (performance_step holdings all_data) holdings
       \<lparr>total_investment = 0, current_value = Finite 0, total_shares = 0,
        weighted_returns = Finite 0\<rparr>"

text \<open>The risk-free rate of the Sharpe ratio, \<^verbatim>\<open>0.02\<close>.\<close>

definition risk_free_rate :: real where
  "risk_free_rate = 2 / 100"

text \<open>The body of the \<^verbatim>\<open>try\<close> block of \<^verbatim>\<open>calculate_portfolio_performance\<close>.\<close>

definition calculate_portfolio_performance_body ::
    "holdings_dict \<Rightarrow> price_dict \<Rightarrow> py_error + (string \<times> pyfloat) list" where
  "calculate_portfolio_performance_body holdings all_data =
     ebind (performance_loop holdings all_data) (\<lambda>st.
     let total_return = fsub (current_value st) (Finite (total_investment st));
         total_return_pct =
           (if total_investment st > 0
            then fmul (np_div total_return (Finite (total_investment st))) (Finite 100)
            else Finite 0);
         portfolio_volatility = calculate_portfolio_volatility holdings all_data;
         sharpe_ratio =
           (if fgt portfolio_volatility (Finite 0)
            then np_div (fsub (weighted_returns st) (Finite risk_free_rate)) portfolio_volatility
            else Finite 0);
         max_drawdown = calculate_max_drawdown holdings all_data
     in Inr [(''total_investment'', Finite (total_investment st)),
             (''current_value'', current_value st),
             (''total_return'', total_return),
             (''total_return_pct'', total_return_pct),
             (''weighted_return_pct'', fmul (weighted_returns st) (Finite 100)),
             (''portfolio_volatility'', fmul portfolio_volatility (Finite 100)),
             (''sharpe_ratio'', sharpe_ratio),
             (''max_drawdown'', fmul max_drawdown (Finite 100)),
             (''number_of_stocks'', Finite (real (length holdings)))])"

definition calculate_portfolio_performance ::
    "holdings_dict \<Rightarrow> price_dict \<Rightarrow> py_error + (string \<times> pyfloat) list" where
  "calculate_portfolio_performance holdings all_data =
     try_except (calculate_portfolio_performance_body holdings all_data) []"

section \<open>DataExporter (utils/data\_exporter.py)\<close>

text \<open>
  The exporter's result depends on the labels of the columns and on their order, so here
  a DataFrame keeps them: a number of rows and the labelled columns in order. A cell is a
  float, a string (dates are strings), or a banner text \<open>Labelled p v\<close>: the text \<open>p\<close>
  followed by \<^verbatim>\<open>str(v)\<close>.
\<close>

datatype cell = Num pyfloat | Str string | Labelled string pyval

record frame =
  nrows :: nat
  columns :: "(string \<times> cell list) list"

definition labels :: "frame \<Rightarrow> string list" where
  "labels df = map fst (columns df)"

text \<open>\<^verbatim>\<open>df.empty\<close>: an axis of length 0.\<close>

definition frame_empty :: "frame \<Rightarrow> bool" where
  "frame_empty df \<longleftrightarrow> nrows df = 0 \<or> columns df = []"

text \<open>\<^verbatim>\<open>df[name]\<close> raises \<^verbatim>\<open>KeyError\<close> on a label the frame does not have.\<close>

definition getitem :: "frame \<Rightarrow> string \<Rightarrow> py_error + cell list" where
  "getitem df name = (case map_of (columns df) name of None \<Rightarrow> Inl KeyError | Some c \<Rightarrow> Inr c)"

definition is_num :: "cell \<Rightarrow> bool" where
  "is_num c = (case c of Num x \<Rightarrow> True | _ \<Rightarrow> False)"

definition num_val :: "cell \<Rightarrow> pyfloat" where
  "num_val c = (case c of Num x \<Rightarrow> x | _ \<Rightarrow> NaN)"

text \<open>Arithmetic and rolling windows on a column that holds a string raise.\<close>

definition to_floats :: "cell list \<Rightarrow> py_error + pyfloat list" where
  "to_floats c = (if list_all is_num c then Inr (map num_val c) else Inl TypeError)"

definition float_column :: "frame \<Rightarrow> string \<Rightarrow> py_error + pyfloat list" where
  "float_column df name = ebind (getitem df name) to_floats"

text \<open>\<^verbatim>\<open>df[name] = values\<close>: an existing column is replaced in place, a new one is appended.\<close>

definition setitem :: "frame \<Rightarrow> string \<Rightarrow> pyfloat list \<Rightarrow> frame" where
  "setitem df name vals =
     df\<lparr>columns :=
          (if name \<in> set (labels df)
           then map (\<lambda>(k, c). if k = name then (k, map Num vals) else (k, c)) (columns df)
           else columns df @ [(name, map Num vals)])\<rparr>"

definition assign :: "string \<Rightarrow> (frame \<Rightarrow> py_error + pyfloat list) \<Rightarrow> frame \<Rightarrow> py_error + frame" where
  "assign name rhs df = ebind (rhs df) (\<lambda>vals. Inr (setitem df name vals))"

definition column_or_nan :: "frame \<Rightarrow> string \<Rightarrow> cell list" where
  "column_or_nan df name =
     (case map_of (columns df) name of None \<Rightarrow> replicate (nrows df) (Num NaN) | Some c \<Rightarrow> c)"

text \<open>
  \<^verbatim>\<open>pd.concat([a, b], ignore_index=True)\<close>: the rows of \<open>a\<close>, then those of \<open>b\<close>; the
  columns are those of \<open>a\<close> in their order, then the columns that only \<open>b\<close> has; a frame
  without a column gets NaN there.
\<close>

definition concat_rows :: "frame \<Rightarrow> frame \<Rightarrow> frame" where
  "concat_rows a b =
     \<lparr>nrows = nrows a + nrows b,
      columns =
        map (\<lambda>name. (name, column_or_nan a name @ column_or_nan b name))
          (labels a @ filter (\<lambda>name. name \<notin> set (labels a)) (labels b))\<rparr>"

text \<open>
  The text that \<^verbatim>\<open>to_csv(index=False)\<close> writes: the header line with the labels, then one
  line per row with the cells in the order of the header. How a float is printed
  (\<^verbatim>\<open>float_format\<close>) is not modelled. \<open>EmptyText\<close> is the empty string.
\<close>

datatype csv_text = EmptyText | CsvText "string list" "cell list list"

definition row_at :: "frame \<Rightarrow> nat \<Rightarrow> cell list" where
  "row_at df i = map (\<lambda>(name, c). c ! i) (columns df)"

definition to_csv :: "frame \<Rightarrow> csv_text" where
  "to_csv df = CsvText (labels df) (map (row_at df) [0..<nrows df])"

text \<open>\<^verbatim>\<open>s.pct_change()\<close>: missing values are padded forward, then \<^verbatim>\<open>s / s.shift(1) - 1\<close>.\<close>

fun ffill_from :: "pyfloat \<Rightarrow> pyfloat list \<Rightarrow> pyfloat list" where
  "ffill_from prev [] = []"
| "ffill_from prev (x # xs) = (if isnan x then prev # ffill_from prev xs else x # ffill_from x xs)"

definition pct_change :: "pyfloat list \<Rightarrow> pyfloat list" where
  "pct_change xs =
     (let p = ffill_from NaN xs
      in map (\<lambda>i. if i = 0 then NaN else fsub (np_div (p ! i) (p ! (i - 1))) (Finite 1))
           [0..<length p])"

definition times100 :: "pyfloat list \<Rightarrow> pyfloat list" where
  "times100 xs = map (\<lambda>x. fmul x (Finite 100)) xs"

text \<open>The right-hand sides of the assignments of \<^verbatim>\<open>export_stock_historical_data\<close>.\<close>

definition close_minus_open :: "frame \<Rightarrow> py_error + pyfloat list" where
  "close_minus_open df =
     ebind (float_column df ''Close'') (\<lambda>c.
     ebind (float_column df ''Open'') (\<lambda>opn. Inr (map2 fsub c opn)))"

definition daily_change_pct :: "frame \<Rightarrow> py_error + pyfloat list" where
  "daily_change_pct df =
     ebind (close_minus_open df) (\<lambda>d.
     ebind (float_column df ''Open'') (\<lambda>opn. Inr (times100 (map2 np_div d opn))))"

definition high_minus_low :: "frame \<Rightarrow> py_error + pyfloat list" where
  "high_minus_low df =
     ebind (float_column df ''High'') (\<lambda>h.
     ebind (float_column df ''Low'') (\<lambda>l. Inr (map2 fsub h l)))"

definition price_range_pct :: "frame \<Rightarrow> py_error + pyfloat list" where
  "price_range_pct df =
     ebind (high_minus_low df) (\<lambda>r.
     ebind (float_column df ''Low'') (\<lambda>l. Inr (times100 (map2 np_div r l))))"

definition moving_average :: "string \<Rightarrow> nat \<Rightarrow> frame \<Rightarrow> py_error + pyfloat list" where
  "moving_average name w df = ebind (float_column df name) (\<lambda>c. Inr (rolling_mean w c))"

definition rolling_volatility :: "nat \<Rightarrow> frame \<Rightarrow> py_error + pyfloat list" where
  "rolling_volatility w df =
     ebind (float_column df ''Close'') (\<lambda>c. Inr (rolling_std w (pct_change c)))"

definition volume_ratio :: "frame \<Rightarrow> py_error + pyfloat list" where
  "volume_ratio df =
     ebind (float_column df ''Volume'') (\<lambda>v.
     ebind (float_column df ''Volume_MA_20'') (\<lambda>m. Inr (map2 np_div v m)))"

text \<open>The assignments in the order of the source, run one after the other.\<close>

definition add_calculated_fields :: "frame \<Rightarrow> py_error + frame" where
  "add_calculated_fields df =
     efold (\<lambda>export_data statement. statement export_data)
       [assign ''Daily_Change'' close_minus_open,
        assign ''Daily_Change_Pct'' daily_change_pct,
        assign ''Price_Range'' high_minus_low,
        assign ''Price_Range_Pct'' price_range_pct,
        assign ''MA_7'' (moving_average ''Close'' 7),
        assign ''MA_20'' (moving_average ''Close'' 20),
        assign ''MA_50'' (moving_average ''Close'' 50),
        assign ''Volatility_7d'' (rolling_volatility 7),
        assign ''Volatility_20d'' (rolling_volatility 20),
        assign ''Volume_MA_20'' (moving_average ''Volume'' 20),
        assign ''Volume_Ratio'' volume_ratio]
       df"

text \<open>
  The one-row frame built from the \<^verbatim>\<open>metadata\<close> dictionary; its columns stand in the
  order of the dictionary's keys. \<open>now\<close> is the formatted \<^verbatim>\<open>datetime.now()\<close>.
\<close>

definition metadata_df :: "info_dict \<Rightarrow> string \<Rightarrow> string \<Rightarrow> string \<Rightarrow> frame" where
  "metadata_df info symbol period now =
     \<lparr>nrows = 1,
      columns =
        [(''Date'', [Str ''METADATA'']),
         (''Open'', [Labelled ''Company: '' (dict_get info ''longName'' (PStr ''N/A''))]),
         (''High'', [Labelled ''Sector: '' (dict_get info ''sector'' (PStr ''N/A''))]),
         (''Low'', [Labelled ''Industry: '' (dict_get info ''industry'' (PStr ''N/A''))]),
         (''Close'', [Labelled ''Market Cap: '' (dict_get info ''marketCap'' (PStr ''N/A''))]),
         (''Volume'', [Str (''Export Date: '' @ now)]),
         (''Dividends'', [Str (''Symbol: '' @ symbol)]),
         (''Stock Splits'', [Str (''Period: '' @ period)]),
         (''Daily_Change'', [Str ''START_OF_DATA'']),
         (''Daily_Change_Pct'', [Str []]),
         (''Price_Range'', [Str []]),
         (''Price_Range_Pct'', [Str []]),
         (''MA_7'', [Str []]),
         (''MA_20'', [Str []]),
         (''MA_50'', [Str []]),
         (''Volatility_7d'', [Str []]),
         (''Volatility_20d'', [Str []]),
         (''Volume_MA_20'', [Str []]),
         (''Volume_Ratio'', [Str []])]\<rparr>"

text \<open>
  \<^verbatim>\<open>export_stock_historical_data\<close>. The two fetches are calls to the market data
  provider: their results are the arguments \<open>data\<close> (\<open>None\<close> when the provider has no
  rows) and \<open>info\<close>.
\<close>

definition export_stock_body ::
    "frame option \<Rightarrow> info_dict \<Rightarrow> string \<Rightarrow> string \<Rightarrow> string \<Rightarrow> py_error + csv_text" where
  "export_stock_body data info symbol period now =
     (case data of
        None \<Rightarrow> Inr EmptyText
      | Some df \<Rightarrow>
          if frame_empty df then Inr EmptyText
          else ebind (add_calculated_fields df) (\<lambda>export_data.
               let final_data = concat_rows (metadata_df info symbol period now) export_data
               in Inr (to_csv final_data)))"

definition export_stock_historical_data ::
    "frame option \<Rightarrow> info_dict \<Rightarrow> string \<Rightarrow> string \<Rightarrow> string \<Rightarrow> py_error + csv_text" where
  "export_stock_historical_data data info symbol period now =
     try_except (export_stock_body data info symbol period now) EmptyText"


text \<open>\<^verbatim>\<open>export_crypto_data\<close>: the fetched frame is the argument \<open>data\<close>.\<close>

definition crypto_daily_return :: "frame \<Rightarrow> py_error + pyfloat list" where
  "crypto_daily_return df =
     ebind (float_column df ''Close'') (\<lambda>c. Inr (times100 (pct_change c)))"

text \<open>\<^verbatim>\<open>cumprod\<close> skips NaN: the entry stays NaN and the running product goes on.\<close>

fun cumprod_from :: "pyfloat \<Rightarrow> pyfloat list \<Rightarrow> pyfloat list" where
  "cumprod_from acc [] = []"
| "cumprod_from acc (x # xs) =
     (if isnan x then NaN # cumprod_from acc xs
      else fmul acc x # cumprod_from (fmul acc x) xs)"

definition crypto_cumulative_return :: "frame \<Rightarrow> py_error + pyfloat list" where
  "crypto_cumulative_return df =
     ebind (float_column df ''Close'') (\<lambda>c.
       Inr (map (\<lambda>x. fsub x (Finite 1))
              (cumprod_from (Finite 1) (map (\<lambda>x. fadd (Finite 1) x) (pct_change c)))))"

definition crypto_rolling_volatility :: "frame \<Rightarrow> py_error + pyfloat list" where
  "crypto_rolling_volatility df =
     ebind (float_column df ''Close'') (\<lambda>c.
       Inr (times100 (map (\<lambda>x. fmul x (Finite (sqrt 365))) (rolling_std 30 (pct_change c)))))"

definition export_crypto_body :: "frame option \<Rightarrow> py_error + csv_text" where
  "export_crypto_body data =
     (case data of
        None \<Rightarrow> Inr EmptyText
      | Some df \<Rightarrow>
          if frame_empty df then Inr EmptyText
          else ebind
                 (efold (\<lambda>d statement. statement d)
                    [assign ''Daily_Return'' crypto_daily_return,
                     assign ''Cumulative_Return'' crypto_cumulative_return,
                     assign ''Rolling_Volatility'' crypto_rolling_volatility]
                    df)
                 (\<lambda>d. Inr (to_csv d)))"

definition export_crypto_data :: "frame option \<Rightarrow> py_error + csv_text" where
  "export_crypto_data data = try_except (export_crypto_body data) EmptyText"


section \<open>Search history (utils/cache\_manager.py)\<close>

text \<open>
  \<^verbatim>\<open>str.upper()\<close> on a byte string: the ASCII letters a..z are mapped to A..Z, every
  other byte is kept. (Python's \<^verbatim>\<open>upper\<close> also maps letters outside ASCII; ticker symbols
  are ASCII.)
\<close>

definition upper_char :: "char \<Rightarrow> char" where
  "upper_char c =
     (let n = (of_char c :: nat)
      in if 97 \<le> n \<and> n \<le> 122 then char_of (n - 32) else c)"

definition upper :: "string \<Rightarrow> string" where
  "upper s = map upper_char s"

text \<open>
  The session state holds the key \<^verbatim>\<open>search_history\<close> or not: \<open>None\<close> is the state
  without the key.
\<close>

type_synonym session_state = "string list option"

definition max_history :: nat where
  "max_history = 10"

text \<open>
  \<^verbatim>\<open>add_to_search_history\<close>: \<^verbatim>\<open>list.remove\<close> deletes the first occurrence
  (\<open>remove1\<close>), \<^verbatim>\<open>insert(0, symbol)\<close> conses, the slice keeps the first
  \<open>max_history\<close> entries.
\<close>

definition add_to_search_history :: "string \<Rightarrow> session_state \<Rightarrow> session_state" where
  "add_to_search_history symbol st =
     (let history = (case st of None \<Rightarrow> [] | Some h \<Rightarrow> h);
          symbol = upper symbol;
          history = (if symbol \<in> set history then remove1 symbol history else history);
          history = symbol # history;
          history = (if length history > max_history then take max_history history else history)
      in Some history)"

definition get_search_history :: "session_state \<Rightarrow> string list" where
  "get_search_history st = (case st of None \<Rightarrow> [] | Some h \<Rightarrow> h)"

text \<open>A sequence of calls, the first symbol of the list added first.\<close>

definition add_all :: "string list \<Rightarrow> session_state \<Rightarrow> session_state" where
  "add_all symbols st = foldl (\<lambda>s sym. add_to_search_history sym s) st symbols"

definition history_ok :: "string list \<Rightarrow> bool" where
  "history_ok h \<longleftrightarrow> length h \<le> max_history \<and> distinct h \<and> list_all (\<lambda>e. upper e = e) h"


section \<open>Notions used in the statements and proofs\<close>

text \<open>
  A field of the issuer metadata that is absent, \<^verbatim>\<open>None\<close> or a number, as the provider
  delivers market capitalisation and dividend yield.
\<close>

definition numeric_field :: "info_dict \<Rightarrow> string \<Rightarrow> bool" where
  "numeric_field info k =
     (case info k of None \<Rightarrow> True | Some PNone \<Rightarrow> True | Some (PNum x) \<Rightarrow> True | Some _ \<Rightarrow> False)"

text \<open>A positive real number: finite and greater than 0.\<close>

definition positive :: "pyfloat \<Rightarrow> bool" where
  "positive x = (case x of Finite r \<Rightarrow> 0 < r | _ \<Rightarrow> False)"

text \<open>A bar with the given open, high, low, close and volume, for the examples.\<close>

definition sample_bar :: "real \<Rightarrow> real \<Rightarrow> real \<Rightarrow> real \<Rightarrow> real \<Rightarrow> bar" where
  "sample_bar o' h l c v =
     \<lparr>Date = [], Open = Finite o', High = Finite h, Low = Finite l, Close = Finite c,
      Volume = Finite v\<rparr>"

text \<open>What a rolling mean of non-negative entries can be: NaN or a number that is not negative.\<close>

definition nonneg_or_nan :: "pyfloat \<Rightarrow> bool" where
  "nonneg_or_nan x = (case x of NaN \<Rightarrow> True | Finite r \<Rightarrow> 0 \<le> r | _ \<Rightarrow> False)"

text \<open>One entry of the RSI series from the gain and loss averages at its position.\<close>

definition rsi_of :: "pyfloat \<Rightarrow> pyfloat \<Rightarrow> pyfloat" where
  "rsi_of gain loss = fsub (Finite 100) (np_div (Finite 100) (fadd (Finite 1) (np_div gain loss)))"

text \<open>The holdings that are present in both maps.\<close>

definition present_holdings :: "holdings_dict \<Rightarrow> price_dict \<Rightarrow> holdings_dict" where
  "present_holdings holdings all_data =
     filter (\<lambda>(symbol, h). map_of all_data symbol \<noteq> None) holdings"

text \<open>
  The volatility as the specification words it, with the first series in place of the
  shortest: the return of one holding over the day \<open>i\<close> days back, the holdings that
  have that day, and the weighted sum over them.
\<close>

definition single_day_return :: "dataframe \<Rightarrow> nat \<Rightarrow> pyfloat" where
  "single_day_return df i =
     (let today = Close (df ! (length df - 1 - i));
          yesterday = Close (df ! (length df - 2 - i))
      in np_div (fsub today yesterday) yesterday)"

definition has_day :: "price_dict \<Rightarrow> nat \<Rightarrow> string \<times> holding \<Rightarrow> bool" where
  "has_day all_data i entry =
     (case map_of all_data (fst entry) of None \<Rightarrow> False | Some df \<Rightarrow> i + 1 < length df)"

definition weighted_day_return :: "holdings_dict \<Rightarrow> price_dict \<Rightarrow> nat \<Rightarrow> pyfloat" where
  "weighted_day_return holdings all_data i =
     fsum (map (\<lambda>(symbol, h).
                  fmul (Finite (investment h / sum_investments holdings))
                    (single_day_return (the (map_of all_data symbol)) i))
             (filter (has_day all_data i) holdings))"

definition first_length :: "price_dict \<Rightarrow> nat" where
  "first_length all_data = (case all_data of [] \<Rightarrow> 0 | (symbol, df) # rest \<Rightarrow> length df)"

definition spec_volatility :: "holdings_dict \<Rightarrow> price_dict \<Rightarrow> pyfloat" where
  "spec_volatility holdings all_data =
     (let daily_returns =
            map (weighted_day_return holdings all_data) [0..<min 30 (first_length all_data - 1)]
      in if daily_returns = [] then Finite 0
         else fmul (np_std daily_returns) (Finite (sqrt 252)))"

definition positive_closes :: "price_dict \<Rightarrow> bool" where
  "positive_closes all_data \<longleftrightarrow>
     list_all (\<lambda>(symbol, df). list_all (\<lambda>b. positive (Close b)) df) all_data"

text \<open>The simple return of a holding at the latest close of its series.\<close>

definition stock_return_of :: "price_dict \<Rightarrow> string \<Rightarrow> holding \<Rightarrow> pyfloat" where
  "stock_return_of all_data symbol h =
     np_div (fsub (Close (last (the (map_of all_data symbol)))) (Finite (purchase_price h)))
       (Finite (purchase_price h))"

definition nonempty_frames :: "price_dict \<Rightarrow> bool" where
  "nonempty_frames all_data \<longleftrightarrow> list_all (\<lambda>(symbol, df). df \<noteq> []) all_data"

definition performance_update ::
    "holdings_dict \<Rightarrow> price_dict \<Rightarrow> perf_state \<Rightarrow> string \<times> holding \<Rightarrow> perf_state" where
  "performance_update holdings all_data st entry =
     (if map_of all_data (fst entry) = None then st
      else \<lparr>total_investment = total_investment st + investment (snd entry),
            current_value = fadd (current_value st)
              (fmul (Finite (shares (snd entry)))
                 (Close (last (the (map_of all_data (fst entry)))))),
            total_shares = total_shares st + shares (snd entry),
            weighted_returns = fadd (weighted_returns st)
              (fmul (stock_return_of all_data (fst entry) (snd entry))
                 (Finite (investment (snd entry) / sum_investments holdings)))\<rparr>)"

text \<open>
  The values of the drawdown computation as real numbers: the value of the portfolio on
  bar \<open>i\<close>, summed over the holdings present in both maps, and the running maximum.
\<close>

definition value_at :: "holdings_dict \<Rightarrow> price_dict \<Rightarrow> nat \<Rightarrow> real" where
  "value_at holdings all_data i =
     sum_list (map (\<lambda>(symbol, h). shares h * fval (Close (the (map_of all_data symbol) ! i)))
                 (present_holdings holdings all_data))"

definition value_series :: "holdings_dict \<Rightarrow> price_dict \<Rightarrow> real list" where
  "value_series holdings all_data = map (value_at holdings all_data) [0..<min_length all_data]"

fun running_max :: "real \<Rightarrow> real list \<Rightarrow> real list" where
  "running_max p [] = []"
| "running_max p (x # xs) = max p x # running_max (max p x) xs"

definition peaks_of :: "real list \<Rightarrow> real list" where
  "peaks_of xs = (case xs of [] \<Rightarrow> [] | x # rest \<Rightarrow> x # running_max x rest)"

definition positive_shares :: "holdings_dict \<Rightarrow> bool" where
  "positive_shares holdings \<longleftrightarrow> list_all (\<lambda>(symbol, h). 0 < shares h) holdings"

text \<open>The drawdowns of a positive value series, as real numbers.\<close>

definition real_drawdowns :: "real list \<Rightarrow> real list" where
  "real_drawdowns vs = map2 (\<lambda>v p. (v - p) / p) vs (peaks_of vs)"










section \<open>Properties of the search history\<close>

lemma upper_char_idem: "upper_char (upper_char c) = upper_char c"
proof (cases "97 \<le> (of_char c :: nat) \<and> (of_char c :: nat) \<le> 122")
  case True
  then have "(of_char c - 32 :: nat) < 256"
    by linarith
  then have "(of_char c - 32 :: nat) mod 256 = of_char c - 32"
    by (rule mod_less)
  then have n: "(of_char (char_of (of_char c - 32 :: nat)) :: nat) = of_char c - 32"
    by (simp add: of_char_of)
  from True have "\<not> (97 \<le> (of_char c - 32 :: nat) \<and> (of_char c - 32 :: nat) \<le> 122)"
    by linarith
  with n have "upper_char (char_of (of_char c - 32 :: nat)) = char_of (of_char c - 32 :: nat)"
    by (auto simp: upper_char_def Let_def)
  moreover from True have "upper_char c = char_of (of_char c - 32 :: nat)"
    by (simp add: upper_char_def Let_def)
  ultimately show ?thesis
    by simp
next
  case False
  then have "upper_char c = c"
    by (auto simp: upper_char_def Let_def)
  then show ?thesis
    by simp
qed

lemma upper_idem: "upper (upper s) = upper s"
  by (simp add: upper_def upper_char_idem)

lemma history_ok_cons_take:
  assumes "distinct r" and "u \<notin> set r" and "list_all (\<lambda>e. upper e = e) r" and "upper u = u"
  shows "history_ok (if length (u # r) > max_history then take max_history (u # r) else u # r)"
proof -
  from assms have dr: "distinct (u # r)" and ur: "list_all (\<lambda>e. upper e = e) (u # r)"
    by simp_all
  show ?thesis
  proof (cases "length (u # r) > max_history")
    case True
    have "distinct (take max_history (u # r))"
      using dr by (rule distinct_take)
    moreover have "list_all (\<lambda>e. upper e = e) (take max_history (u # r))"
      using ur unfolding list_all_iff by (blast dest: in_set_takeD)
    moreover have "length (take max_history (u # r)) \<le> max_history"
      by simp
    ultimately show ?thesis
      using True unfolding history_ok_def by presburger
  next
    case False
    then have "length (u # r) \<le> max_history"
      by simp
    with False dr ur show ?thesis
      unfolding history_ok_def by presburger
  qed
qed

lemma history_ok_add:
  assumes "history_ok h"
  shows "history_ok (get_search_history (add_to_search_history s (Some h)))"
proof -
  from assms have d: "distinct h" and u: "list_all (\<lambda>e. upper e = e) h"
    by (simp_all add: history_ok_def)
  show ?thesis
  proof (cases "upper s \<in> set h")
    case True
    have "distinct (remove1 (upper s) h)"
      using d by simp
    moreover have "upper s \<notin> set (remove1 (upper s) h)"
      using d by simp
    moreover have "list_all (\<lambda>e. upper e = e) (remove1 (upper s) h)"
      using u unfolding list_all_iff by (blast dest: notin_set_remove1)
    ultimately have "history_ok (if length (upper s # remove1 (upper s) h) > max_history
        then take max_history (upper s # remove1 (upper s) h) else upper s # remove1 (upper s) h)"
      using upper_idem by (rule history_ok_cons_take)
    moreover from True have "get_search_history (add_to_search_history s (Some h)) =
        (if length (upper s # remove1 (upper s) h) > max_history
         then take max_history (upper s # remove1 (upper s) h) else upper s # remove1 (upper s) h)"
      by (simp add: add_to_search_history_def get_search_history_def Let_def)
    ultimately show ?thesis
      by (simp only:)
  next
    case False
    with d u have "history_ok (if length (upper s # h) > max_history
        then take max_history (upper s # h) else upper s # h)"
      using upper_idem by (intro history_ok_cons_take)
    moreover from False have "get_search_history (add_to_search_history s (Some h)) =
        (if length (upper s # h) > max_history then take max_history (upper s # h) else upper s # h)"
      by (simp add: add_to_search_history_def get_search_history_def Let_def)
    ultimately show ?thesis
      by (simp only:)
  qed
qed

lemma add_to_search_history_Some:
  "\<exists>h. add_to_search_history s st = Some h"
  by (simp add: add_to_search_history_def Let_def)

lemma history_ok_add_None:
  "history_ok (get_search_history (add_to_search_history s None))"
  by (simp add: add_to_search_history_def get_search_history_def history_ok_def
      max_history_def upper_idem Let_def)

lemma history_ok_step:
  assumes "st = None \<or> (\<exists>h. st = Some h \<and> history_ok h)"
  shows "\<exists>h. add_to_search_history s st = Some h \<and> history_ok h"
proof -
  obtain h' where h': "add_to_search_history s st = Some h'"
    using add_to_search_history_Some by blast
  from assms have "history_ok (get_search_history (add_to_search_history s st))"
    using history_ok_add history_ok_add_None by blast
  with h' show ?thesis
    by (simp add: get_search_history_def)
qed

lemma history_ok_add_all:
  assumes "st = None \<or> (\<exists>h. st = Some h \<and> history_ok h)"
  shows "add_all symbols st = None \<and> symbols = [] \<and> st = None
         \<or> (\<exists>h. add_all symbols st = Some h \<and> history_ok h)"
  using assms
proof (induction symbols arbitrary: st)
  case Nil
  then show ?case by (auto simp: add_all_def)
next
  case (Cons s symbols)
  from history_ok_step [OF Cons.prems]
  obtain h where h: "add_to_search_history s st = Some h" "history_ok h"
    by blast
  from Cons.IH [of "Some h"] h(2)
  have "\<exists>h'. add_all symbols (Some h) = Some h' \<and> history_ok h'"
    by auto
  then show ?case
    using h(1) by (simp add: add_all_def)
qed

lemma add_all_snoc:
  "add_all (symbols @ [s]) st = add_to_search_history s (add_all symbols st)"
  by (simp add: add_all_def)

lemma hd_add:
  "add_to_search_history s st = Some h \<Longrightarrow> h \<noteq> [] \<and> hd h = upper s"
  by (auto simp: add_to_search_history_def Let_def max_history_def split: if_splits)

lemma readd_present:
  assumes "history_ok h" and "upper s \<in> set h"
  shows "add_to_search_history s (Some h) = Some (upper s # remove1 (upper s) h)"
proof -
  from assms(2) have "length (remove1 (upper s) h) = length h - 1"
    by (simp add: length_remove1)
  moreover from assms(2) have "length h > 0"
    by (cases h) auto
  ultimately have "length (upper s # remove1 (upper s) h) = length h"
    by simp
  with assms(1) have "\<not> length (upper s # remove1 (upper s) h) > max_history"
    by (simp add: history_ok_def)
  with assms(2) show ?thesis
    by (simp add: add_to_search_history_def Let_def)
qed

text \<open>
  C10. Starting from a session without search history, after any non-empty sequence of
  \<^verbatim>\<open>add_to_search_history\<close> calls the history has at most 10 entries, no duplicates,
  only uppercased entries, and the symbol added last (uppercased) at the front; adding a
  symbol whose uppercase form is already in such a history moves it to the front and
  leaves the length unchanged.
\<close>

theorem search_history_invariant:
  "(\<exists>h. add_all (symbols @ [s]) None = Some h
        \<and> length h \<le> 10 \<and> distinct h \<and> list_all (\<lambda>e. upper e = e) h
        \<and> h \<noteq> [] \<and> hd h = upper s
        \<and> (\<forall>t. upper t \<in> set h \<longrightarrow>
              (\<exists>h'. add_to_search_history t (Some h) = Some h'
                  \<and> hd h' = upper t \<and> length h' = length h \<and> set h' = set h
                  \<and> h' = upper t # remove1 (upper t) h)))"
proof -
  have "add_all symbols None = None \<or> (\<exists>h. add_all symbols None = Some h \<and> history_ok h)"
    using history_ok_add_all [of None symbols] by auto
  from history_ok_step [OF this, of s]
  obtain h where h: "add_all (symbols @ [s]) None = Some h" "history_ok h"
    by (auto simp: add_all_snoc)
  from h(1) have front: "h \<noteq> [] \<and> hd h = upper s"
    by (simp add: add_all_snoc hd_add)
  have re: "\<exists>h'. add_to_search_history t (Some h) = Some h'
                  \<and> hd h' = upper t \<and> length h' = length h \<and> set h' = set h
                  \<and> h' = upper t # remove1 (upper t) h" if t: "upper t \<in> set h" for t
  proof -
    have eq: "add_to_search_history t (Some h) = Some (upper t # remove1 (upper t) h)"
      using h(2) t by (rule readd_present)
    have "length h > 0"
      using t by (cases h) auto
    then have len: "length (upper t # remove1 (upper t) h) = length h"
      using t by (simp add: length_remove1)
    have st: "set (upper t # remove1 (upper t) h) = set h"
      using t h(2) by (auto simp: history_ok_def dest: notin_set_remove1)
    show ?thesis
      using eq len st by simp
  qed
  from h(2) have "length h \<le> 10" "distinct h" "list_all (\<lambda>e. upper e = e) h"
    by (simp_all add: history_ok_def max_history_def)
  with h(1) front re show ?thesis
    by blast
qed

theorem search_history_invariant_witness:
  "add_all [''aapl'', ''msft'', ''Aapl''] None = Some [''AAPL'', ''MSFT'']
   \<and> add_to_search_history ''msft'' (Some [''AAPL'', ''MSFT'']) = Some [''MSFT'', ''AAPL'']"
proof -
  have e: "add_all ([''aapl'', ''msft''] @ [''Aapl'']) None = Some [''AAPL'', ''MSFT'']"
    by code_simp
  have u: "upper ''msft'' = ''MSFT''"
    by code_simp
  from search_history_invariant [of "[''aapl'', ''msft'']" "''Aapl''"]
  obtain h where h: "add_all ([''aapl'', ''msft''] @ [''Aapl'']) None = Some h"
    and re: "\<forall>t. upper t \<in> set h \<longrightarrow>
          (\<exists>h'. add_to_search_history t (Some h) = Some h'
              \<and> hd h' = upper t \<and> length h' = length h \<and> set h' = set h
              \<and> h' = upper t # remove1 (upper t) h)"
    by blast
  from h e have hv: "h = [''AAPL'', ''MSFT'']"
    by simp
  have m: "upper ''msft'' \<in> set h"
    unfolding u hv by simp
  from re [rule_format, OF m]
  have "add_to_search_history ''msft'' (Some h) = Some (upper ''msft'' # remove1 (upper ''msft'') h)"
    by blast
  then have "add_to_search_history ''msft'' (Some [''AAPL'', ''MSFT'']) = Some [''MSFT'', ''AAPL'']"
    unfolding u hv by simp
  with e u show ?thesis
    by simp
qed


section \<open>Basic facts\<close>

lemma ebind_Inr [simp]: "ebind (Inr v) f = f v"
  by (simp add: ebind_def)

lemma ebind_Inl [simp]: "ebind (Inl e) f = Inl e"
  by (simp add: ebind_def)

lemma try_except_Inr [simp]: "try_except (Inr v) d = Inr v"
  by (simp add: try_except_def)

lemma try_except_Inl [simp]: "try_except (Inl e) d = Inr d"
  by (simp add: try_except_def)

lemma try_except_total: "\<exists>v. try_except body d = Inr v"
  by (cases body) simp_all

lemma catch_Inr [simp]: "catch (Inr v) d = v"
  by (simp add: catch_def)

lemma catch_Inl [simp]: "catch (Inl e) d = d"
  by (simp add: catch_def)

lemma iloc_last: "xs \<noteq> [] \<Longrightarrow> iloc xs (- 1) = Inr (last xs)"
proof -
  assume ne: "xs \<noteq> []"
  then have "0 < length xs"
    by simp
  then have "nat (int (length xs) + - 1) = length xs - 1" and "1 \<le> length xs"
    by linarith+
  with ne show ?thesis
    by (simp add: iloc_def last_conv_nth)
qed

lemma iloc_nil: "iloc [] k = Inl IndexError"
  by (simp add: iloc_def)

lemma iloc_back:
  assumes "i < length xs"
  shows "iloc xs (- (int i + 1)) = Inr (xs ! (length xs - 1 - i))"
proof -
  from assms have "nat (int (length xs) + - (int i + 1)) = length xs - 1 - i"
    by linarith
  with assms show ?thesis
    by (simp add: iloc_def)
qed

lemma iloc_nat: "i < length xs \<Longrightarrow> iloc xs (int i) = Inr (xs ! i)"
  by (simp add: iloc_def)

lemma iloc_m2: "2 \<le> length xs \<Longrightarrow> iloc xs (- 2) = Inr (xs ! (length xs - 2))"
  using iloc_back [of 1 xs] by (simp add: numeral_2_eq_2)

lemma isnan_simps [simp]:
  "isnan NaN" "\<not> isnan (Finite r)" "\<not> isnan PosInf" "\<not> isnan NegInf"
  by (simp_all add: isnan_def)

lemma is_finite_simps [simp]:
  "is_finite (Finite r)" "\<not> is_finite NaN" "\<not> is_finite PosInf" "\<not> is_finite NegInf"
  by (simp_all add: is_finite_def)

lemma fval_Finite [simp]: "fval (Finite r) = r"
  by (simp add: fval_def)

lemma is_finite_conv: "is_finite x \<longleftrightarrow> x = Finite (fval x)"
  by (cases x) simp_all

lemma fadd_Finite [simp]: "fadd (Finite a) (Finite b) = Finite (a + b)"
  by (simp add: fadd_def)

lemma fneg_Finite [simp]: "fneg (Finite a) = Finite (- a)"
  by (simp add: fneg_def)

lemma fsub_Finite [simp]: "fsub (Finite a) (Finite b) = Finite (a - b)"
  by (simp add: fsub_def)

lemma fmul_Finite [simp]: "fmul (Finite a) (Finite b) = Finite (a * b)"
  by (simp add: fmul_def)

lemma np_div_Finite [simp]: "b \<noteq> 0 \<Longrightarrow> np_div (Finite a) (Finite b) = Finite (a / b)"
  by (simp add: np_div_def)

lemma fold_fadd_Finite:
  "list_all is_finite xs \<Longrightarrow>
     fold (\<lambda>x acc. fadd acc x) xs (Finite a) = Finite (a + sum_list (map fval xs))"
proof (induction xs arbitrary: a)
  case Nil
  then show ?case by simp
next
  case (Cons x xs)
  then obtain r where "x = Finite r"
    by (auto simp: is_finite_conv)
  with Cons show ?case
    by (simp add: add.assoc)
qed

lemma fsum_Finite: "list_all is_finite xs \<Longrightarrow> fsum xs = Finite (sum_list (map fval xs))"
  by (simp add: fsum_def fold_fadd_Finite)

lemma not_nan_finite: "list_all is_finite xs \<Longrightarrow> not_nan xs = xs"
  unfolding not_nan_def
proof (induction xs)
  case Nil
  then show ?case by simp
next
  case (Cons x xs)
  then show ?case by (cases x) simp_all
qed

lemma series_mean_Finite:
  assumes "list_all is_finite xs" and "xs \<noteq> []"
  shows "series_mean xs = Finite (sum_list (map fval xs) / real (length xs))"
proof -
  from assms obtain y ys where xs: "xs = y # ys"
    by (cases xs) auto
  have "series_mean xs = np_div (fsum xs) (Finite (real (length xs)))"
    using assms(1) by (simp add: series_mean_def not_nan_finite xs)
  also have "\<dots> = Finite (sum_list (map fval xs) / real (length xs))"
    using assms by (simp add: fsum_Finite)
  finally show ?thesis .
qed

lemma py_int_Finite: "\<exists>k. py_int (Finite r) = Inr k"
  by (simp add: py_int_def)

section \<open>Price change (MetricsCalculator)\<close>

lemma positive_conv: "positive x \<longleftrightarrow> (\<exists>r. x = Finite r \<and> 0 < r)"
  by (cases x) (simp_all add: positive_def)

lemma format_market_cap_numeric:
  "numeric_field info ''marketCap'' \<Longrightarrow>
     \<exists>v. format_market_cap (dict_get info ''marketCap'' (PNum (Finite 0))) = Inr v"
  by (auto simp: numeric_field_def dict_get_def format_market_cap_def
      split: option.splits pyval.splits)

lemma format_percentage_numeric:
  "numeric_field info ''dividendYield'' \<Longrightarrow>
     \<exists>v. format_percentage (dict_get info ''dividendYield'' (PNum (Finite 0))) = Inr v"
  by (auto simp: numeric_field_def dict_get_def format_percentage_def
      split: option.splits pyval.splits)

lemma metrics_body_ok:
  assumes ne: "data \<noteq> []"
    and vols: "list_all (\<lambda>b. is_finite (Volume b)) data"
    and mc: "numeric_field info ''marketCap''"
    and dy: "numeric_field info ''dividendYield''"
  shows "\<exists>rest.
     calculate_metrics_body data info =
       Inr ((''Current Price'', PNum (Close (last data)))
          # (''Price Change'', PNum (fsub (Close (last data))
                (if length data > 1 then Close (data ! (length data - 2)) else Close (last data))))
          # (''Percent Change'', PNum
                (let p = (if length data > 1 then Close (data ! (length data - 2))
                          else Close (last data))
                 in if fne p (Finite 0)
                    then fmul (np_div (fsub (Close (last data)) p) p) (Finite 100)
                    else Finite 0))
          # rest)"
proof -
  from ne have cur: "iloc (map Close data) (- 1) = Inr (Close (last data))"
    by (simp add: iloc_last last_map)
  from ne have vol: "iloc (map Volume data) (- 1) = Inr (Volume (last data))"
    by (simp add: iloc_last last_map)
  from vols ne have "is_finite (Volume (last data))"
    by (simp add: list_all_iff)
  then obtain k1 where k1: "py_int (Volume (last data)) = Inr k1"
    using py_int_Finite by (metis is_finite_conv)
  from vols have "list_all is_finite (map Volume data)"
    by (simp add: list_all_iff)
  with ne have "\<exists>r. series_mean (map Volume data) = Finite r"
    by (simp add: series_mean_Finite)
  then obtain k2 where k2: "py_int (series_mean (map Volume data)) = Inr k2"
    using py_int_Finite by metis
  from mc obtain v1 where
    v1: "format_market_cap (dict_get info ''marketCap'' (PNum (Finite 0))) = Inr v1"
    using format_market_cap_numeric by blast
  from dy obtain v2 where
    v2: "format_percentage (dict_get info ''dividendYield'' (PNum (Finite 0))) = Inr v2"
    using format_percentage_numeric by blast
  show ?thesis
  proof (cases "length data > 1")
    case True
    then have "iloc (map Close data) (- 2) = Inr (Close (data ! (length data - 2)))"
      by (simp add: iloc_m2)
    with True show ?thesis
      unfolding calculate_metrics_body_def cur vol
      by (simp add: Let_def k1 k2 v1 v2)
  next
    case False
    then show ?thesis
      unfolding calculate_metrics_body_def cur vol
      by (simp add: Let_def k1 k2 v1 v2)
  qed
qed

text \<open>
  C1. For a price frame with positive closes, finite volumes and numeric (or absent)
  market capitalisation and dividend yield: the result is the empty mapping only for the
  empty frame; with at least two bars, Price Change is close[-1] - close[-2] and Percent
  Change is (close[-1] - close[-2]) / close[-2] * 100; with exactly one bar both are 0.
\<close>

theorem metrics_price_change:
  assumes closes: "list_all (\<lambda>b. positive (Close b)) data"
    and vols: "list_all (\<lambda>b. is_finite (Volume b)) data"
    and mc: "numeric_field info ''marketCap''"
    and dy: "numeric_field info ''dividendYield''"
  shows "(calculate_metrics (Some data) info = Inr [] \<longleftrightarrow> data = [])
    \<and> (2 \<le> length data \<longrightarrow>
         (\<exists>m. calculate_metrics (Some data) info = Inr m
            \<and> map_of m ''Price Change''
                = Some (PNum (Finite (fval (Close (last data))
                                       - fval (Close (data ! (length data - 2))))))
            \<and> map_of m ''Percent Change''
                = Some (PNum (Finite ((fval (Close (last data))
                                        - fval (Close (data ! (length data - 2))))
                                       / fval (Close (data ! (length data - 2))) * 100)))))
    \<and> (length data = 1 \<longrightarrow>
         (\<exists>m. calculate_metrics (Some data) info = Inr m
            \<and> map_of m ''Price Change'' = Some (PNum (Finite 0))
            \<and> map_of m ''Percent Change'' = Some (PNum (Finite 0))))"
proof (cases "data = []")
  case True
  then show ?thesis
    by (simp add: calculate_metrics_def)
next
  case False
  from metrics_body_ok [OF False vols mc dy] obtain rest where
    body: "calculate_metrics_body data info =
       Inr ((''Current Price'', PNum (Close (last data)))
          # (''Price Change'', PNum (fsub (Close (last data))
                (if length data > 1 then Close (data ! (length data - 2)) else Close (last data))))
          # (''Percent Change'', PNum
                (let p = (if length data > 1 then Close (data ! (length data - 2))
                          else Close (last data))
                 in if fne p (Finite 0)
                    then fmul (np_div (fsub (Close (last data)) p) p) (Finite 100)
                    else Finite 0))
          # rest)"
    by blast
  from closes False obtain c1 where c1: "Close (last data) = Finite c1" "0 < c1"
    by (metis last_in_set list_all_iff positive_conv)
  have one: "calculate_metrics (Some data) info = Inr [] \<longleftrightarrow> data = []"
    using False body by (simp add: calculate_metrics_def)
  have two: "\<exists>m. calculate_metrics (Some data) info = Inr m
            \<and> map_of m ''Price Change''
                = Some (PNum (Finite (fval (Close (last data))
                                       - fval (Close (data ! (length data - 2))))))
            \<and> map_of m ''Percent Change''
                = Some (PNum (Finite ((fval (Close (last data))
                                        - fval (Close (data ! (length data - 2))))
                                       / fval (Close (data ! (length data - 2))) * 100)))"
    if len: "2 \<le> length data"
  proof -
    from len have "data ! (length data - 2) \<in> set data"
      by simp
    with closes obtain c2 where c2: "Close (data ! (length data - 2)) = Finite c2" "0 < c2"
      by (metis list_all_iff positive_conv)
    from len have gt: "length data > 1"
      by simp
    show ?thesis
      using False body gt c1 c2
      by (simp add: calculate_metrics_def Let_def fne_def feq_def)
  qed
  have three: "\<exists>m. calculate_metrics (Some data) info = Inr m
            \<and> map_of m ''Price Change'' = Some (PNum (Finite 0))
            \<and> map_of m ''Percent Change'' = Some (PNum (Finite 0))"
    if len: "length data = 1"
    using False body len c1
    by (simp add: calculate_metrics_def Let_def fne_def feq_def)
  from one two three show ?thesis
    by blast
qed

theorem metrics_price_change_witness:
  "(\<exists>m. calculate_metrics (Some [sample_bar 100 105 99 102 1000, sample_bar 102 103 100 101 1200])
           (\<lambda>k. None) = Inr m
      \<and> map_of m ''Price Change'' = Some (PNum (Finite (- 1)))
      \<and> map_of m ''Percent Change'' = Some (PNum (Finite (- 1 / 102 * 100))))
   \<and> (\<exists>m. calculate_metrics (Some [sample_bar 100 105 99 102 1000]) (\<lambda>k. None) = Inr m
      \<and> map_of m ''Price Change'' = Some (PNum (Finite 0))
      \<and> map_of m ''Percent Change'' = Some (PNum (Finite 0)))
   \<and> calculate_metrics (Some []) (\<lambda>k. None) = Inr []"
proof -
  let ?d2 = "[sample_bar 100 105 99 102 1000, sample_bar 102 103 100 101 1200]"
  let ?d1 = "[sample_bar 100 105 99 102 1000]"
  let ?i = "\<lambda>k :: string. None :: pyval option"
  have i: "numeric_field ?i ''marketCap''" "numeric_field ?i ''dividendYield''"
    by (simp_all add: numeric_field_def)
  have h2: "list_all (\<lambda>b. positive (Close b)) ?d2" "list_all (\<lambda>b. is_finite (Volume b)) ?d2"
    by (simp_all add: sample_bar_def positive_def)
  have h1: "list_all (\<lambda>b. positive (Close b)) ?d1" "list_all (\<lambda>b. is_finite (Volume b)) ?d1"
    by (simp_all add: sample_bar_def positive_def)
  have h0: "list_all (\<lambda>b. positive (Close b)) []" "list_all (\<lambda>b. is_finite (Volume b)) []"
    by simp_all
  from metrics_price_change [OF h2 i]
  have a: "\<exists>m. calculate_metrics (Some ?d2) ?i = Inr m
      \<and> map_of m ''Price Change'' = Some (PNum (Finite (- 1)))
      \<and> map_of m ''Percent Change'' = Some (PNum (Finite (- 1 / 102 * 100)))"
    by (simp add: sample_bar_def)
  from metrics_price_change [OF h1 i]
  have b: "\<exists>m. calculate_metrics (Some ?d1) ?i = Inr m
      \<and> map_of m ''Price Change'' = Some (PNum (Finite 0))
      \<and> map_of m ''Percent Change'' = Some (PNum (Finite 0))"
    by simp
  from metrics_price_change [OF h0 i]
  have c: "calculate_metrics (Some []) ?i = Inr []"
    by simp
  from a b c show ?thesis
    by blast
qed

section \<open>Rolling windows and the RSI\<close>

lemma last_map_upt: "0 < n \<Longrightarrow> last (map f [0..<n]) = f (n - 1)"
  by (cases n) simp_all

lemma length_diff [simp]: "length (diff xs) = length xs"
  by (simp add: diff_def)

lemma length_where_series [simp]: "length (where_series c d xs) = length xs"
  by (simp add: where_series_def)

lemma length_rolling_mean [simp]: "length (rolling_mean w xs) = length xs"
  by (simp add: rolling_mean_def)

lemma length_rolling_std [simp]: "length (rolling_std w xs) = length xs"
  by (simp add: rolling_std_def)

lemma length_window_at: "length (window_at w xs i) \<le> length xs"
  by (simp add: window_at_def)

lemma set_window_at: "set (window_at w xs i) \<subseteq> set xs"
  unfolding window_at_def
  by (meson set_drop_subset set_take_subset subset_trans)

lemma rolling_mean_nth:
  "i < length xs \<Longrightarrow>
     rolling_mean w xs ! i =
       (if full_window w (window_at w xs i) then Finite (mean_real (map fval (window_at w xs i)))
        else NaN)"
  by (simp add: rolling_mean_def Let_def)

lemma rolling_std_nth:
  "i < length xs \<Longrightarrow>
     rolling_std w xs ! i =
       (if full_window w (window_at w xs i) \<and> 1 < w
        then Finite (sqrt (sample_var (map fval (window_at w xs i)))) else NaN)"
  by (simp add: rolling_std_def Let_def)

lemma short_window: "length xs < w \<Longrightarrow> \<not> full_window w (window_at w xs i)"
  using length_window_at [of w xs i] by (simp add: full_window_def)

lemma rolling_mean_short: "length xs < w \<Longrightarrow> i < length xs \<Longrightarrow> rolling_mean w xs ! i = NaN"
  by (simp add: rolling_mean_nth short_window)

lemma rolling_std_short: "length xs < w \<Longrightarrow> i < length xs \<Longrightarrow> rolling_std w xs ! i = NaN"
  by (simp add: rolling_std_nth short_window)

lemma nonneg_or_nan_conv: "nonneg_or_nan x \<longleftrightarrow> x = NaN \<or> (\<exists>r. x = Finite r \<and> 0 \<le> r)"
  by (cases x) (simp_all add: nonneg_or_nan_def)

lemma mean_real_nonneg: "(\<forall>r \<in> set rs. 0 \<le> r) \<Longrightarrow> 0 \<le> mean_real rs"
  by (simp add: mean_real_def sum_list_nonneg)

lemma rolling_mean_nonneg:
  assumes "\<forall>x \<in> set xs. is_finite x \<longrightarrow> 0 \<le> fval x" and "i < length xs"
  shows "nonneg_or_nan (rolling_mean w xs ! i)"
proof (cases "full_window w (window_at w xs i)")
  case True
  have "\<forall>r \<in> set (map fval (window_at w xs i)). 0 \<le> r"
  proof
    fix r assume "r \<in> set (map fval (window_at w xs i))"
    then obtain x where x: "x \<in> set (window_at w xs i)" "r = fval x"
      by auto
    from x(1) True have "is_finite x"
      by (simp add: full_window_def list_all_iff)
    moreover from x(1) have "x \<in> set xs"
      using set_window_at [of w xs i] by auto
    ultimately show "0 \<le> r"
      using assms(1) x(2) by blast
  qed
  then have "0 \<le> mean_real (map fval (window_at w xs i))"
    by (rule mean_real_nonneg)
  with True assms(2) show ?thesis
    by (simp add: rolling_mean_nth nonneg_or_nan_conv)
next
  case False
  with assms(2) show ?thesis
    by (simp add: rolling_mean_nth nonneg_or_nan_conv)
qed

lemma flt_Finite [simp]: "flt (Finite a) (Finite b) \<longleftrightarrow> a < b"
  by (simp add: flt_def)

lemma fgt_Finite [simp]: "fgt (Finite a) (Finite b) \<longleftrightarrow> b < a"
  by (simp add: fgt_def)

lemma gain_entries_nonneg:
  "\<forall>x \<in> set (where_series (\<lambda>d. fgt d (Finite 0)) (Finite 0) ds). is_finite x \<longrightarrow> 0 \<le> fval x"
proof
  fix x assume "x \<in> set (where_series (\<lambda>d. fgt d (Finite 0)) (Finite 0) ds)"
  then have "x \<in> (\<lambda>d. if fgt d (Finite 0) then d else Finite 0) ` set ds"
    by (simp only: where_series_def set_map)
  then obtain d where x: "x = (if fgt d (Finite 0) then d else Finite 0)"
    by (rule imageE)
  show "is_finite x \<longrightarrow> 0 \<le> fval x"
  proof (cases d)
    case (Finite r)
    then show ?thesis
      unfolding x by (cases "0 < r") simp_all
  next
    case PosInf
    then show ?thesis
      unfolding x by (simp add: fgt_def flt_def)
  next
    case NegInf
    then show ?thesis
      unfolding x by (simp add: fgt_def flt_def)
  next
    case NaN
    then show ?thesis
      unfolding x by (simp add: fgt_def flt_def)
  qed
qed

lemma loss_entries_nonneg:
  "\<forall>x \<in> set (map fneg (where_series (\<lambda>d. flt d (Finite 0)) (Finite 0) ds)).
      is_finite x \<longrightarrow> 0 \<le> fval x"
proof
  fix x assume "x \<in> set (map fneg (where_series (\<lambda>d. flt d (Finite 0)) (Finite 0) ds))"
  then have "x \<in> (\<lambda>d. fneg (if flt d (Finite 0) then d else Finite 0)) ` set ds"
    by (simp only: where_series_def set_map image_image)
  then obtain d where x: "x = fneg (if flt d (Finite 0) then d else Finite 0)"
    by (rule imageE)
  show "is_finite x \<longrightarrow> 0 \<le> fval x"
  proof (cases d)
    case (Finite r)
    then show ?thesis
      unfolding x by (cases "r < 0") simp_all
  next
    case PosInf
    then show ?thesis
      unfolding x by (simp add: flt_def)
  next
    case NegInf
    then show ?thesis
      unfolding x by (simp add: flt_def fneg_def)
  next
    case NaN
    then show ?thesis
      unfolding x by (simp add: flt_def)
  qed
qed

lemma length_rsi_gain [simp]: "length (rsi_gain p xs) = length xs"
  by (simp add: rsi_gain_def)

lemma length_rsi_loss [simp]: "length (rsi_loss p xs) = length xs"
  by (simp add: rsi_loss_def)

lemma rsi_gain_nonneg: "i < length xs \<Longrightarrow> nonneg_or_nan (rsi_gain p xs ! i)"
  unfolding rsi_gain_def
  by (rule rolling_mean_nonneg [OF gain_entries_nonneg]) simp

lemma rsi_loss_nonneg: "i < length xs \<Longrightarrow> nonneg_or_nan (rsi_loss p xs ! i)"
  unfolding rsi_loss_def
  by (rule rolling_mean_nonneg [OF loss_entries_nonneg]) simp

lemma rsi_of_NaN [simp]: "rsi_of NaN l = NaN" "rsi_of g NaN = NaN"
  by (simp_all add: rsi_of_def np_div_def fadd_def fsub_def fneg_def)

lemma rsi_of_zero_loss:
  "rsi_of (Finite a) (Finite 0) = (if a = 0 then NaN else if 0 < a then Finite 100 else Finite 100)"
  by (simp add: rsi_of_def np_div_def fadd_def fsub_def fneg_def inf_of_sign_def sgn_real_def)

lemma rsi_of_pos_loss:
  assumes "0 \<le> a" and "0 < b"
  shows "\<exists>v. rsi_of (Finite a) (Finite b) = Finite v \<and> 0 \<le> v \<and> v \<le> 100"
proof -
  define t where "t = a / b"
  from assms have q: "0 \<le> t"
    by (simp add: t_def)
  then have nz: "1 + t \<noteq> 0" and pos: "0 < 1 + t"
    by linarith+
  from pos have "0 < 100 / (1 + t)"
    by simp
  moreover from q pos have "100 / (1 + t) \<le> 100"
    by (simp add: pos_divide_le_eq)
  moreover from assms nz have "rsi_of (Finite a) (Finite b) = Finite (100 - 100 / (1 + t))"
    by (simp add: rsi_of_def t_def)
  ultimately show ?thesis
    by simp
qed

lemma rsi_of_range:
  assumes "nonneg_or_nan g" and "nonneg_or_nan l"
  shows "rsi_of g l = NaN \<or> (\<exists>v. rsi_of g l = Finite v \<and> 0 \<le> v \<and> v \<le> 100)"
proof -
  consider "g = NaN" | "l = NaN" | a b where "g = Finite a" "0 \<le> a" "l = Finite b" "0 \<le> b"
    using assms by (auto simp: nonneg_or_nan_conv)
  then show ?thesis
  proof cases
    case 1
    then show ?thesis by simp
  next
    case 2
    then show ?thesis by simp
  next
    case 3
    show ?thesis
    proof (cases "b = 0")
      case True
      with 3 show ?thesis
        by (simp add: rsi_of_zero_loss)
    next
      case False
      with 3 have "0 < b" by simp
      from rsi_of_pos_loss [OF 3(2) this] 3 show ?thesis
        by simp
    qed
  qed
qed

lemma rsi_series_nth:
  "i < length xs \<Longrightarrow> rsi_series p xs ! i = rsi_of (rsi_gain p xs ! i) (rsi_loss p xs ! i)"
  by (simp add: rsi_series_def rsi_of_def Let_def)

lemma length_rsi_series [simp]: "length (rsi_series p xs) = length xs"
  by (simp add: rsi_series_def)

lemma same_length_ne: "length ys = length xs \<Longrightarrow> xs \<noteq> [] \<Longrightarrow> ys \<noteq> []"
  by auto

lemma calculate_rsi_period_last:
  assumes "xs \<noteq> []"
  shows "calculate_rsi_period p xs =
     (let r = rsi_of (last (rsi_gain p xs)) (last (rsi_loss p xs))
      in if \<not> isnan r then r else Finite 50)"
proof -
  have ne: "rsi_series p xs \<noteq> []" "rsi_gain p xs \<noteq> []" "rsi_loss p xs \<noteq> []"
    by (rule same_length_ne [OF _ assms], simp)+
  from assms have lt: "length xs - 1 < length xs"
    by (cases xs) simp_all
  have "last (rsi_series p xs) = rsi_of (last (rsi_gain p xs)) (last (rsi_loss p xs))"
    using ne lt by (simp add: last_conv_nth rsi_series_nth)
  with ne(1) show ?thesis
    by (simp add: calculate_rsi_period_def iloc_last Let_def)
qed

lemma calculate_rsi_period_nil: "calculate_rsi_period p [] = Finite 50"
  by (simp add: calculate_rsi_period_def rsi_series_def rsi_gain_def rolling_mean_def iloc_nil)

lemma last_rsi_gain_nonneg: "xs \<noteq> [] \<Longrightarrow> nonneg_or_nan (last (rsi_gain p xs))"
proof -
  assume ne: "xs \<noteq> []"
  then have "rsi_gain p xs \<noteq> []"
    by (rule same_length_ne [rotated]) simp
  moreover from ne have "length xs - 1 < length xs"
    by (cases xs) simp_all
  ultimately show ?thesis
    by (simp add: last_conv_nth rsi_gain_nonneg)
qed

lemma last_rsi_loss_nonneg: "xs \<noteq> [] \<Longrightarrow> nonneg_or_nan (last (rsi_loss p xs))"
proof -
  assume ne: "xs \<noteq> []"
  then have "rsi_loss p xs \<noteq> []"
    by (rule same_length_ne [rotated]) simp
  moreover from ne have "length xs - 1 < length xs"
    by (cases xs) simp_all
  ultimately show ?thesis
    by (simp add: last_conv_nth rsi_loss_nonneg)
qed

lemma last_rsi_gain_short:
  assumes "xs \<noteq> []" and "length xs < p"
  shows "last (rsi_gain p xs) = NaN"
proof -
  from assms(1) have "rsi_gain p xs \<noteq> []"
    by (rule same_length_ne [rotated]) simp
  moreover from assms(1) have "length xs - 1 < length xs"
    by (cases xs) simp_all
  ultimately show ?thesis
    using assms(2) by (simp add: last_conv_nth rsi_gain_def rolling_mean_short)
qed

text \<open>
  C2 (as amended). For a non-empty close series the RSI is 50 when the series has fewer
  than 14 bars; when the last 14-bar loss average is 0 it is 100 if the gain average is
  positive and 50 otherwise; and it is always a finite number between 0 and 100.
\<close>

theorem rsi_fallbacks:
  assumes "prices \<noteq> []"
  shows "(length prices < 14 \<longrightarrow> calculate_rsi prices = Finite 50)
    \<and> (last (rsi_loss 14 prices) = Finite 0 \<longrightarrow>
         calculate_rsi prices
           = (if positive (last (rsi_gain 14 prices)) then Finite 100 else Finite 50))
    \<and> (\<exists>v. calculate_rsi prices = Finite v \<and> 0 \<le> v \<and> v \<le> 100)"
proof -
  let ?g = "last (rsi_gain 14 prices)"
  let ?l = "last (rsi_loss 14 prices)"
  have calc: "calculate_rsi prices = (if \<not> isnan (rsi_of ?g ?l) then rsi_of ?g ?l else Finite 50)"
    using calculate_rsi_period_last [OF assms, of 14] by (simp add: calculate_rsi_def Let_def)
  have g: "nonneg_or_nan ?g" and l: "nonneg_or_nan ?l"
    using assms by (rule last_rsi_gain_nonneg, rule last_rsi_loss_nonneg)
  have short: "calculate_rsi prices = Finite 50" if "length prices < 14"
    using calc last_rsi_gain_short [OF assms that] by simp
  have zero: "calculate_rsi prices = (if positive ?g then Finite 100 else Finite 50)"
    if z: "?l = Finite 0"
  proof -
    from g consider "?g = NaN" | a where "?g = Finite a" "0 \<le> a"
      by (auto simp: nonneg_or_nan_conv)
    then show ?thesis
    proof cases
      case 1
      then show ?thesis
        using calc by (simp add: positive_def)
    next
      case 2
      then show ?thesis
        using calc z by (cases "a = 0") (simp_all add: positive_def rsi_of_zero_loss)
    qed
  qed
  have range: "\<exists>v. calculate_rsi prices = Finite v \<and> 0 \<le> v \<and> v \<le> 100"
  proof -
    from rsi_of_range [OF g l]
    consider "rsi_of ?g ?l = NaN" | v where "rsi_of ?g ?l = Finite v" "0 \<le> v" "v \<le> 100"
      by blast
    then show ?thesis
    proof cases
      case 1
      then show ?thesis
        using calc by simp
    next
      case 2
      then show ?thesis
        using calc by simp
    qed
  qed
  from short zero range show ?thesis
    by blast
qed

text \<open>
  Fifteen closes rising by one each day: the 14-bar loss average is 0 and the RSI is 100,
  not 50.
\<close>

theorem rsi_zero_loss_counterexample:
  "last (rsi_loss 14 (map Finite [1, 2, 3, 4, 5, 6, 7, 8, 9, 10, 11, 12, 13, 14, 15])) = Finite 0
   \<and> calculate_rsi (map Finite [1, 2, 3, 4, 5, 6, 7, 8, 9, 10, 11, 12, 13, 14, 15]) = Finite 100
   \<and> calculate_rsi (map Finite [1, 2, 3, 4, 5, 6, 7, 8, 9, 10, 11, 12, 13, 14, 15]) \<noteq> Finite 50"
  by code_simp

theorem rsi_fallbacks_witness:
  "calculate_rsi [Finite 100, Finite 101] = Finite 50
   \<and> calculate_rsi (map Finite [1, 2, 3, 4, 5, 6, 7, 8, 9, 10, 11, 12, 13, 14, 15]) = Finite 100
   \<and> calculate_rsi (map Finite [3, 3, 3, 3, 3, 3, 3, 3, 3, 3, 3, 3, 3, 3, 3]) = Finite 50"
proof -
  let ?up = "map Finite [1, 2, 3, 4, 5, 6, 7, 8, 9, 10, 11, 12, 13, 14, 15]"
  let ?flat = "map Finite [3, 3, 3, 3, 3, 3, 3, 3, 3, 3, 3, 3, 3, 3, 3]"
  have a: "calculate_rsi [Finite 100, Finite 101] = Finite 50"
    using rsi_fallbacks [of "[Finite 100, Finite 101]"] by simp
  have "last (rsi_loss 14 ?up) = Finite 0" and "positive (last (rsi_gain 14 ?up))"
    by code_simp+
  then have b: "calculate_rsi ?up = Finite 100"
    using rsi_fallbacks [of ?up] by simp
  have "last (rsi_loss 14 ?flat) = Finite 0" and "\<not> positive (last (rsi_gain 14 ?flat))"
    by code_simp+
  then have c: "calculate_rsi ?flat = Finite 50"
    using rsi_fallbacks [of ?flat] by simp
  from a b c show ?thesis
    by simp
qed

lemma fadd_NaN [simp]: "fadd NaN x = NaN" "fadd x NaN = NaN"
  by (simp_all add: fadd_def)

lemma fsub_NaN [simp]: "fsub NaN x = NaN"
  by (simp add: fsub_def)

lemma last_map2:
  assumes "length xs = length ys" and "xs \<noteq> []"
  shows "last (map2 f xs ys) = f (last xs) (last ys)"
proof -
  from assms have ys: "ys \<noteq> []"
    by auto
  from assms have "length xs - 1 < length xs"
    by (cases xs) simp_all
  with assms ys show ?thesis
    by (simp add: last_conv_nth)
qed

lemma last_rolling_mean_short:
  assumes "xs \<noteq> []" and "length xs < w"
  shows "last (rolling_mean w xs) = NaN"
proof -
  from assms(1) have "rolling_mean w xs \<noteq> []"
    by (rule same_length_ne [rotated]) simp
  moreover from assms(1) have "length xs - 1 < length xs"
    by (cases xs) simp_all
  ultimately show ?thesis
    using assms(2) by (simp add: last_conv_nth rolling_mean_short)
qed

lemma bollinger_short:
  assumes "prices \<noteq> []" and "length prices < 20"
  shows "calculate_bollinger_bands prices = (NaN, NaN)"
proof -
  have ne: "rolling_mean 20 prices \<noteq> []"
    by (rule same_length_ne [OF _ assms(1)]) simp
  have sma: "last (rolling_mean 20 prices) = NaN"
    using assms by (rule last_rolling_mean_short)
  have up: "last (map2 (\<lambda>m s. fadd m (fmul s (Finite 2))) (rolling_mean 20 prices)
      (rolling_std 20 prices)) = NaN"
    using ne by (simp add: last_map2 sma)
  have lo: "last (map2 (\<lambda>m s. fsub m (fmul s (Finite 2))) (rolling_mean 20 prices)
      (rolling_std 20 prices)) = NaN"
    using ne by (simp add: last_map2 sma)
  have ne_up: "map2 (\<lambda>m s. fadd m (fmul s (Finite 2))) (rolling_mean 20 prices)
      (rolling_std 20 prices) \<noteq> []"
    by (rule same_length_ne [OF _ assms(1)]) simp
  have ne_lo: "map2 (\<lambda>m s. fsub m (fmul s (Finite 2))) (rolling_mean 20 prices)
      (rolling_std 20 prices) \<noteq> []"
    by (rule same_length_ne [OF _ assms(1)]) simp
  show ?thesis
    unfolding calculate_bollinger_bands_def calculate_bollinger_bands_params_def Let_def
    by (simp add: iloc_last [OF ne_up] iloc_last [OF ne_lo] up lo)
qed

text \<open>
  C3. On a non-empty close series with fewer than 20 bars nothing raises inside
  \<^verbatim>\<open>_calculate_bollinger_bands\<close>, so the fallback of its \<^verbatim>\<open>except\<close> branch is not used:
  the bands are (NaN, NaN), and \<^verbatim>\<open>calculate_technical_indicators\<close> stores NaN under
  \<^verbatim>\<open>bb_upper\<close> and \<^verbatim>\<open>bb_lower\<close>.
\<close>

theorem bollinger_short_series_nan:
  assumes "data \<noteq> []" and "length data < 20"
  shows "calculate_bollinger_bands (map Close data) = (NaN, NaN)
    \<and> (\<exists>m. calculate_technical_indicators (Some data) = Inr m
          \<and> map_of m ''bb_upper'' = Some NaN \<and> map_of m ''bb_lower'' = Some NaN)"
proof -
  from assms have c: "map Close data \<noteq> []" "length (map Close data) < 20"
    by simp_all
  from c have bb: "calculate_bollinger_bands (map Close data) = (NaN, NaN)"
    by (rule bollinger_short)
  have n20: "rolling_mean 20 (map Close data) \<noteq> []"
    by (rule same_length_ne [OF _ c(1)]) simp
  have n50: "rolling_mean 50 (map Close data) \<noteq> []"
    by (rule same_length_ne [OF _ c(1)]) simp
  obtain ml ms where macd: "calculate_macd (map Close data) = (ml, ms)"
    by (cases "calculate_macd (map Close data)") blast
  have "\<exists>m. calculate_technical_indicators (Some data) = Inr m
          \<and> map_of m ''bb_upper'' = Some NaN \<and> map_of m ''bb_lower'' = Some NaN"
    using assms(1)
    by (simp add: calculate_technical_indicators_def calculate_technical_indicators_body_def
        iloc_last [OF n20] iloc_last [OF n50] bb macd Let_def)
  with bb show ?thesis
    by simp
qed

theorem bollinger_short_series_nan_witness:
  "calculate_bollinger_bands [Finite 100] = (NaN, NaN)
   \<and> (\<exists>m. calculate_technical_indicators (Some [sample_bar 100 105 99 100 1000]) = Inr m
          \<and> map_of m ''bb_upper'' = Some NaN \<and> map_of m ''bb_lower'' = Some NaN)"
  using bollinger_short_series_nan [of "[sample_bar 100 105 99 100 1000]"]
  by (simp add: sample_bar_def)

section \<open>Portfolio volatility\<close>

lemma emap_Inr:
  "(\<And>x. x \<in> set xs \<Longrightarrow> f x = Inr (g x)) \<Longrightarrow> emap f xs = Inr (map g xs)"
  by (induction xs) simp_all

lemma efold_Inr:
  "(\<And>s x. x \<in> set xs \<Longrightarrow> f s x = Inr (g s x)) \<Longrightarrow>
     efold f xs s = Inr (fold (\<lambda>x s. g s x) xs s)"
  by (induction xs arbitrary: s) simp_all

lemma fold_cond_filter:
  "fold (\<lambda>x acc. if P x then h acc x else acc) xs a = fold (\<lambda>x acc. h acc x) (filter P xs) a"
  by (induction xs arbitrary: a) simp_all

lemma fsum_map_fold: "fsum (map g ys) = fold (\<lambda>y acc. fadd acc (g y)) ys (Finite 0)"
  by (simp add: fsum_def fold_map comp_def)

lemma py_div_ok: "b \<noteq> 0 \<Longrightarrow> py_div a b = Inr (a / b)"
  by (simp add: py_div_def)

lemma iloc_minus:
  assumes "0 < k" and "k \<le> length xs"
  shows "iloc xs (- int k) = Inr (xs ! (length xs - k))"
proof -
  from assms have "nat (int (length xs) + - int k) = length xs - k"
    by linarith
  with assms show ?thesis
    by (simp add: iloc_def)
qed

lemma iloc_today:
  "Suc i < length xs \<Longrightarrow> iloc xs (- int i - 1) = Inr (xs ! (length xs - Suc i))"
proof -
  assume a: "Suc i < length xs"
  have e: "- int i - 1 = - int (Suc i)"
    by simp
  show ?thesis
    unfolding e using a by (intro iloc_minus) simp_all
qed

lemma iloc_yesterday:
  "Suc i < length xs \<Longrightarrow> iloc xs (- int i - 2) = Inr (xs ! (length xs - Suc (Suc i)))"
proof -
  assume a: "Suc i < length xs"
  have e: "- int i - 2 = - int (Suc (Suc i))"
    by simp
  show ?thesis
    unfolding e using a by (intro iloc_minus) simp_all
qed

lemma volatility_step_ok:
  assumes "tot \<noteq> 0"
  shows "volatility_step all_data tot i acc (symbol, h) =
     Inr (if has_day all_data i (symbol, h)
          then fadd acc (fmul (Finite (investment h / tot))
                 (single_day_return (the (map_of all_data symbol)) i))
          else acc)"
proof (cases "map_of all_data symbol")
  case None
  then show ?thesis
    by (simp add: volatility_step_def has_day_def)
next
  case (Some df)
  show ?thesis
  proof (cases "i + 1 < length df")
    case True
    then have len: "Suc i < length (map Close df)"
      by simp
    from True have n1: "length df - Suc i < length df"
      and n2: "length df - Suc (Suc i) < length df"
      by linarith+
    show ?thesis
      using Some True assms
      by (simp add: volatility_step_def has_day_def iloc_today [OF len] iloc_yesterday [OF len]
          py_div_ok investment_def single_day_return_def Let_def nth_map [OF n1] nth_map [OF n2])
  next
    case False
    with Some show ?thesis
      by (simp add: volatility_step_def has_day_def)
  qed
qed

lemma daily_portfolio_return_ok:
  assumes "sum_investments holdings \<noteq> 0"
  shows "daily_portfolio_return holdings all_data (sum_investments holdings) i =
     Inr (weighted_day_return holdings all_data i)"
proof -
  let ?g = "\<lambda>acc entry. if has_day all_data i entry
      then fadd acc (fmul (Finite (investment (snd entry) / sum_investments holdings))
             (single_day_return (the (map_of all_data (fst entry))) i))
      else acc"
  have "efold (volatility_step all_data (sum_investments holdings) i) holdings (Finite 0)
      = Inr (fold (\<lambda>x s. ?g s x) holdings (Finite 0))"
  proof (rule efold_Inr)
    fix s x
    show "volatility_step all_data (sum_investments holdings) i s x = Inr (?g s x)"
      using volatility_step_ok [OF assms, of all_data i s "fst x" "snd x"] by simp
  qed
  also have "fold (\<lambda>x s. ?g s x) holdings (Finite 0)
      = fold (\<lambda>x acc. fadd acc (fmul (Finite (investment (snd x) / sum_investments holdings))
             (single_day_return (the (map_of all_data (fst x))) i)))
          (filter (has_day all_data i) holdings) (Finite 0)"
    by (rule fold_cond_filter)
  also have "\<dots> = weighted_day_return holdings all_data i"
    by (simp add: weighted_day_return_def fsum_map_fold case_prod_beta)
  finally show ?thesis
    by (simp add: daily_portfolio_return_def)
qed

lemma portfolio_returns_ok:
  assumes "sum_investments holdings \<noteq> 0"
  shows "portfolio_returns holdings all_data days =
     Inr (map (weighted_day_return holdings all_data) [0..<min days (first_length all_data - 1)])"
proof (cases all_data)
  case Nil
  then show ?thesis
    by (simp add: portfolio_returns_def first_length_def)
next
  case (Cons p rest)
  obtain s0 df0 where p: "p = (s0, df0)"
    by (cases p)
  have n: "nat (min (int days) (int (length df0) - 1)) = min days (length df0 - 1)"
    by linarith
  show ?thesis
    unfolding Cons p portfolio_returns_def
    using daily_portfolio_return_ok [OF assms, of "(s0, df0) # rest"]
    by (simp add: n first_length_def emap_Inr)
qed

lemma positive_closes_lookup:
  assumes "positive_closes all_data" and "map_of all_data s = Some df" and "i < length df"
  shows "\<exists>c. Close (df ! i) = Finite c \<and> 0 < c"
proof -
  from assms(2) have "(s, df) \<in> set all_data"
    by (rule map_of_SomeD)
  with assms(1) have "list_all (\<lambda>b. positive (Close b)) df"
    by (auto simp: positive_closes_def list_all_iff)
  with assms(3) have "positive (Close (df ! i))"
    by (simp add: list_all_length)
  then show ?thesis
    by (simp add: positive_conv)
qed

lemma single_day_return_finite:
  assumes "positive_closes all_data" and "map_of all_data s = Some df" and "i + 1 < length df"
  shows "is_finite (single_day_return df i)"
proof -
  from assms(3) have "length df - 1 - i < length df" and "length df - 2 - i < length df"
    by linarith+
  with assms(1,2) obtain a b where "Close (df ! (length df - 1 - i)) = Finite a"
    and "Close (df ! (length df - 2 - i)) = Finite b" and "0 < b"
    using positive_closes_lookup by meson
  then show ?thesis
    by (simp add: single_day_return_def Let_def)
qed

lemma weighted_day_return_finite:
  assumes "positive_closes all_data"
  shows "is_finite (weighted_day_return holdings all_data i)"
proof -
  have "list_all is_finite
      (map (\<lambda>(symbol, h). fmul (Finite (investment h / sum_investments holdings))
                (single_day_return (the (map_of all_data symbol)) i))
         (filter (has_day all_data i) holdings))"
  proof -
    have "is_finite (fmul (Finite (investment h / sum_investments holdings))
                (single_day_return (the (map_of all_data symbol)) i))"
      if "has_day all_data i (symbol, h)" for symbol h
    proof -
      from that obtain df where df: "map_of all_data symbol = Some df" "i + 1 < length df"
        by (auto simp: has_day_def split: option.splits)
      from single_day_return_finite [OF assms df]
      obtain r where "single_day_return df i = Finite r"
        by (auto simp: is_finite_conv)
      with df(1) show ?thesis
        by simp
    qed
    then show ?thesis
      by (auto simp: list_all_iff)
  qed
  then show ?thesis
    by (simp add: weighted_day_return_def fsum_Finite)
qed

lemma if_swap_nil: "(if xs \<noteq> [] then a else b) = (if xs = [] then b else a)"
  by simp

lemma np_std_single: "np_std [Finite x] = Finite 0"
  by (simp add: np_std_def np_mean_def fsum_def fsqrt_def Let_def)

text \<open>
  C8 (as amended). For non-empty maps and a non-zero total investment, the loop builds
  the daily returns of the last min(30, n - 1) days, where n is the length of the first
  series of the price-data map; the return of a day is the sum, over the holdings whose
  series has that day, of weight times single-day return; the result is the population
  standard deviation of these returns times sqrt(252), and 0.0 when there is no day.
  With positive closes and fewer than two days the result is 0.0.
\<close>

theorem portfolio_volatility_window:
  assumes "holdings \<noteq> []" and "all_data \<noteq> []" and "sum_investments holdings \<noteq> 0"
  shows "portfolio_returns holdings all_data 30
           = Inr (map (weighted_day_return holdings all_data)
                    [0..<min 30 (first_length all_data - 1)])
    \<and> calculate_portfolio_volatility holdings all_data = spec_volatility holdings all_data
    \<and> (positive_closes all_data \<and> min 30 (first_length all_data - 1) < 2 \<longrightarrow>
         calculate_portfolio_volatility holdings all_data = Finite 0)"
proof -
  let ?rs = "map (weighted_day_return holdings all_data) [0..<min 30 (first_length all_data - 1)]"
  have rs: "portfolio_returns holdings all_data 30 = Inr ?rs"
    using assms(3) by (rule portfolio_returns_ok)
  have vol: "calculate_portfolio_volatility holdings all_data
      = (if ?rs \<noteq> [] then fmul (np_std ?rs) (Finite (sqrt 252)) else Finite 0)"
    using assms(1,2) unfolding calculate_portfolio_volatility_def
      calculate_portfolio_volatility_days_def rs
    by simp
  have spec: "calculate_portfolio_volatility holdings all_data = spec_volatility holdings all_data"
    unfolding vol spec_volatility_def Let_def by (rule if_swap_nil)
  have few: "calculate_portfolio_volatility holdings all_data = Finite 0"
    if pos: "positive_closes all_data" and lt: "min 30 (first_length all_data - 1) < 2"
  proof -
    from lt consider "min 30 (first_length all_data - 1) = 0"
      | "min 30 (first_length all_data - 1) = 1"
      by linarith
    then show ?thesis
    proof cases
      case 1
      then have e: "?rs = []"
        by simp
      show ?thesis
        unfolding vol e by simp
    next
      case 2
      obtain x where "weighted_day_return holdings all_data 0 = Finite x"
        using weighted_day_return_finite [OF pos, of holdings 0] by (auto simp: is_finite_conv)
      with 2 have e: "?rs = [Finite x]"
        by simp
      show ?thesis
        unfolding vol e by (simp add: np_std_single)
    qed
  qed
  from rs spec few show ?thesis
    by blast
qed

text \<open>
  A first series of three bars and a second of two: the shortest series allows one day,
  the loop runs over two and the volatility is not 0.
\<close>

theorem volatility_window_counterexample:
  "portfolio_returns
     [(''A'', \<lparr>shares = 1, purchase_price = 1\<rparr>), (''B'', \<lparr>shares = 1, purchase_price = 1\<rparr>)]
     [(''A'', [sample_bar 1 1 1 1 0, sample_bar 2 2 2 2 0, sample_bar 3 3 3 3 0]),
      (''B'', [sample_bar 1 1 1 1 0, sample_bar 1 1 1 1 0])] 30
     = Inr [Finite (1 / 4), Finite (1 / 2)]
   \<and> min 30 (min_length
        [(''A'', [sample_bar 1 1 1 1 0, sample_bar 2 2 2 2 0, sample_bar 3 3 3 3 0]),
         (''B'', [sample_bar 1 1 1 1 0, sample_bar 1 1 1 1 0])] - 1) = (1 :: nat)
   \<and> calculate_portfolio_volatility
     [(''A'', \<lparr>shares = 1, purchase_price = 1\<rparr>), (''B'', \<lparr>shares = 1, purchase_price = 1\<rparr>)]
     [(''A'', [sample_bar 1 1 1 1 0, sample_bar 2 2 2 2 0, sample_bar 3 3 3 3 0]),
      (''B'', [sample_bar 1 1 1 1 0, sample_bar 1 1 1 1 0])]
     \<noteq> Finite 0"
proof -
  let ?h = "[(''A'', \<lparr>shares = 1, purchase_price = 1\<rparr>), (''B'', \<lparr>shares = 1, purchase_price = 1\<rparr>)]"
  let ?d = "[(''A'', [sample_bar 1 1 1 1 0, sample_bar 2 2 2 2 0, sample_bar 3 3 3 3 0]),
      (''B'', [sample_bar 1 1 1 1 0, sample_bar 1 1 1 1 0])]"
  have rs: "portfolio_returns ?h ?d 30 = Inr [Finite (1 / 4), Finite (1 / 2)]"
    by code_simp
  have ml: "min 30 (min_length ?d - 1) = (1 :: nat)"
    by code_simp
  have "np_std [Finite (1 / 4), Finite (1 / 2)] = Finite (sqrt (1 / 64))"
    by (simp add: np_std_def np_mean_def fsum_def fsqrt_def Let_def power2_eq_square)
  then have "calculate_portfolio_volatility ?h ?d = Finite (sqrt (1 / 64) * sqrt 252)"
    unfolding calculate_portfolio_volatility_def calculate_portfolio_volatility_days_def rs
    by simp
  then have "calculate_portfolio_volatility ?h ?d \<noteq> Finite 0"
    by simp
  with rs ml show ?thesis
    by blast
qed

theorem portfolio_volatility_window_witness:
  "calculate_portfolio_volatility
     [(''A'', \<lparr>shares = 1, purchase_price = 1\<rparr>), (''B'', \<lparr>shares = 1, purchase_price = 1\<rparr>)]
     [(''A'', [sample_bar 1 1 1 1 0, sample_bar 2 2 2 2 0, sample_bar 3 3 3 3 0]),
      (''B'', [sample_bar 1 1 1 1 0, sample_bar 1 1 1 1 0])]
   = spec_volatility
     [(''A'', \<lparr>shares = 1, purchase_price = 1\<rparr>), (''B'', \<lparr>shares = 1, purchase_price = 1\<rparr>)]
     [(''A'', [sample_bar 1 1 1 1 0, sample_bar 2 2 2 2 0, sample_bar 3 3 3 3 0]),
      (''B'', [sample_bar 1 1 1 1 0, sample_bar 1 1 1 1 0])]
   \<and> calculate_portfolio_volatility
     [(''A'', \<lparr>shares = 10, purchase_price = 150\<rparr>)]
     [(''A'', [sample_bar 160 160 160 160 0, sample_bar 165 165 165 165 0])]
   = Finite 0"
proof -
  let ?h = "[(''A'', \<lparr>shares = 1, purchase_price = 1\<rparr>), (''B'', \<lparr>shares = 1, purchase_price = 1\<rparr>)]"
  let ?d = "[(''A'', [sample_bar 1 1 1 1 0, sample_bar 2 2 2 2 0, sample_bar 3 3 3 3 0]),
      (''B'', [sample_bar 1 1 1 1 0, sample_bar 1 1 1 1 0])]"
  let ?h1 = "[(''A'', \<lparr>shares = 10, purchase_price = 150\<rparr>)]"
  let ?d1 = "[(''A'', [sample_bar 160 160 160 160 0, sample_bar 165 165 165 165 0])]"
  have h: "?h \<noteq> []" "?d \<noteq> []" "sum_investments ?h \<noteq> 0"
    by (simp_all add: sum_investments_def investment_def)
  have a: "calculate_portfolio_volatility ?h ?d = spec_volatility ?h ?d"
    using portfolio_volatility_window [OF h] by blast
  have h1: "?h1 \<noteq> []" "?d1 \<noteq> []" "sum_investments ?h1 \<noteq> 0"
    by (simp_all add: sum_investments_def investment_def)
  have "positive_closes ?d1" and "min 30 (first_length ?d1 - 1) < 2"
    by (simp_all add: positive_closes_def positive_def sample_bar_def first_length_def)
  then have b: "calculate_portfolio_volatility ?h1 ?d1 = Finite 0"
    using portfolio_volatility_window [OF h1] by blast
  from a b show ?thesis
    by (rule conjI)
qed

section \<open>Investment weights\<close>

lemma holding_weight_ok:
  "sum_investments holdings \<noteq> 0 \<Longrightarrow>
     holding_weight holdings h = Inr (investment h / sum_investments holdings)"
  by (simp add: holding_weight_def py_div_ok investment_def)

lemma sum_list_divide: "sum_list (map (\<lambda>x. f x / c) xs) = sum_list (map f xs) / (c :: real)"
  by (induction xs) (simp_all add: add_divide_distrib)

lemma present_all:
  "list_all (\<lambda>(symbol, h). map_of all_data symbol \<noteq> None) holdings \<Longrightarrow>
     present_holdings holdings all_data = holdings"
  by (simp add: present_holdings_def list_all_iff)

lemma performance_step_ok:
  assumes "sum_investments holdings \<noteq> 0" and "nonempty_frames all_data"
  shows "performance_step holdings all_data st entry
     = Inr (performance_update holdings all_data st entry)"
proof (cases "map_of all_data (fst entry)")
  case None
  then show ?thesis
    by (simp add: performance_step_def performance_update_def case_prod_beta)
next
  case (Some df)
  then have "(fst entry, df) \<in> set all_data"
    by (rule map_of_SomeD)
  with assms(2) have ne: "df \<noteq> []"
    by (auto simp: nonempty_frames_def list_all_iff)
  then have "iloc (map Close df) (- 1) = Inr (Close (last df))"
    by (simp add: iloc_last last_map)
  with Some show ?thesis
    by (simp add: performance_step_def performance_update_def case_prod_beta Let_def
        holding_weight_ok [OF assms(1)] stock_return_of_def investment_def)
qed

lemma fold_update_total:
  "total_investment (fold (\<lambda>x s. performance_update holdings all_data s x) xs st)
     = total_investment st + sum_investments (present_holdings xs all_data)"
proof (induction xs arbitrary: st)
  case Nil
  then show ?case
    by (simp add: sum_investments_def present_holdings_def)
next
  case (Cons x xs)
  show ?case
    by (simp add: Cons.IH)
      (simp add: performance_update_def sum_investments_def present_holdings_def case_prod_beta)
qed

lemma fold_update_weighted:
  "weighted_returns (fold (\<lambda>x s. performance_update holdings all_data s x) xs st)
     = fold (\<lambda>x acc. fadd acc
               (fmul (stock_return_of all_data (fst x) (snd x))
                  (Finite (investment (snd x) / sum_investments holdings))))
         (present_holdings xs all_data) (weighted_returns st)"
proof (induction xs arbitrary: st)
  case Nil
  then show ?case
    by (simp add: present_holdings_def)
next
  case (Cons x xs)
  show ?case
    by (simp add: Cons.IH)
      (simp add: performance_update_def present_holdings_def case_prod_beta)
qed

text \<open>
  C5 (as amended). When the investments of all holdings do not sum to 0, the weight of a
  holding is its investment divided by the total investment of all holdings of the
  holdings map, present in the price data or not. Over the holdings present in both maps
  the weights sum to the invested share of the present holdings, which is 1 when every
  holding is present. With non-empty series the loop succeeds and its weighted return is
  the sum of return times weight over the present holdings.
\<close>

theorem investment_weights:
  assumes "sum_investments holdings \<noteq> 0"
  shows "emap (\<lambda>(symbol, h). holding_weight holdings h) (present_holdings holdings all_data)
           = Inr (map (\<lambda>(symbol, h). investment h / sum_investments holdings)
                    (present_holdings holdings all_data))
    \<and> sum_list (map (\<lambda>(symbol, h). investment h / sum_investments holdings)
                  (present_holdings holdings all_data))
        = sum_investments (present_holdings holdings all_data) / sum_investments holdings
    \<and> (list_all (\<lambda>(symbol, h). map_of all_data symbol \<noteq> None) holdings \<longrightarrow>
         sum_list (map (\<lambda>(symbol, h). investment h / sum_investments holdings)
                     (present_holdings holdings all_data)) = 1)
    \<and> (nonempty_frames all_data \<longrightarrow>
         (\<exists>st. performance_loop holdings all_data = Inr st
            \<and> total_investment st = sum_investments (present_holdings holdings all_data)
            \<and> weighted_returns st
                = fsum (map (\<lambda>(symbol, h).
                               fmul (stock_return_of all_data symbol h)
                                 (Finite (investment h / sum_investments holdings)))
                          (present_holdings holdings all_data))))"
proof -
  let ?p = "present_holdings holdings all_data"
  let ?w = "\<lambda>(symbol :: string, h). investment h / sum_investments holdings"
  have a: "emap (\<lambda>(symbol, h). holding_weight holdings h) ?p = Inr (map ?w ?p)"
    by (rule emap_Inr) (simp add: case_prod_beta holding_weight_ok [OF assms])
  have b: "sum_list (map ?w ?p) = sum_investments ?p / sum_investments holdings"
  proof -
    have "sum_list (map ?w ?p)
        = sum_list (map (\<lambda>x. investment (snd x)) ?p) / sum_investments holdings"
      using sum_list_divide [of "\<lambda>x. investment (snd x)" "sum_investments holdings" ?p]
      by (simp add: case_prod_unfold)
    also have "sum_list (map (\<lambda>x. investment (snd x)) ?p) = sum_investments ?p"
      by (simp add: sum_investments_def case_prod_unfold)
    finally show ?thesis .
  qed
  have c: "sum_list (map ?w ?p) = 1"
    if "list_all (\<lambda>(symbol, h). map_of all_data symbol \<noteq> None) holdings"
    using b assms present_all [OF that] by simp
  have d: "\<exists>st. performance_loop holdings all_data = Inr st
            \<and> total_investment st = sum_investments ?p
            \<and> weighted_returns st
                = fsum (map (\<lambda>(symbol, h).
                               fmul (stock_return_of all_data symbol h)
                                 (Finite (investment h / sum_investments holdings))) ?p)"
    if ne: "nonempty_frames all_data"
  proof -
    let ?init = "\<lparr>total_investment = 0, current_value = Finite 0, total_shares = 0,
        weighted_returns = Finite 0\<rparr>"
    have loop: "performance_loop holdings all_data
        = Inr (fold (\<lambda>x s. performance_update holdings all_data s x) holdings ?init)"
      unfolding performance_loop_def
      by (rule efold_Inr) (rule performance_step_ok [OF assms ne])
    show ?thesis
      unfolding loop
      by (simp add: fold_update_total fold_update_weighted fsum_map_fold case_prod_beta)
  qed
  from a b c d show ?thesis
    by blast
qed

text \<open>
  Two holdings of 100 each, price data for the first only: the one weight in use is 1/2.
\<close>

theorem investment_weights_counterexample:
  "emap (\<lambda>(symbol, h). holding_weight
           [(''A'', \<lparr>shares = 1, purchase_price = 100\<rparr>),
            (''B'', \<lparr>shares = 1, purchase_price = 100\<rparr>)] h)
     (present_holdings
        [(''A'', \<lparr>shares = 1, purchase_price = 100\<rparr>),
         (''B'', \<lparr>shares = 1, purchase_price = 100\<rparr>)]
        [(''A'', [sample_bar 110 110 110 110 0])])
     = Inr [1 / 2]
   \<and> sum_list [1 / 2 :: real] \<noteq> 1"
  by code_simp

theorem investment_weights_witness:
  "emap (\<lambda>(symbol, h). holding_weight
           [(''A'', \<lparr>shares = 1, purchase_price = 100\<rparr>),
            (''B'', \<lparr>shares = 3, purchase_price = 100\<rparr>)] h)
     (present_holdings
        [(''A'', \<lparr>shares = 1, purchase_price = 100\<rparr>),
         (''B'', \<lparr>shares = 3, purchase_price = 100\<rparr>)]
        [(''A'', [sample_bar 110 110 110 110 0]), (''B'', [sample_bar 50 50 50 50 0])])
     = Inr [1 / 4, 3 / 4]
   \<and> sum_list [1 / 4, 3 / 4 :: real] = 1
   \<and> (\<exists>st. performance_loop
          [(''A'', \<lparr>shares = 1, purchase_price = 100\<rparr>),
           (''B'', \<lparr>shares = 3, purchase_price = 100\<rparr>)]
          [(''A'', [sample_bar 110 110 110 110 0]), (''B'', [sample_bar 50 50 50 50 0])] = Inr st
        \<and> total_investment st = 400
        \<and> weighted_returns st = Finite (- 7 / 20))"
proof -
  let ?h = "[(''A'', \<lparr>shares = 1, purchase_price = 100\<rparr>),
            (''B'', \<lparr>shares = 3, purchase_price = 100\<rparr>)]"
  let ?d = "[(''A'', [sample_bar 110 110 110 110 0]), (''B'', [sample_bar 50 50 50 50 0])]"
  have s: "sum_investments ?h \<noteq> 0"
    by (simp add: sum_investments_def investment_def)
  have p: "present_holdings ?h ?d = ?h"
    by (simp add: present_holdings_def)
  have all: "list_all (\<lambda>(symbol, h). map_of ?d symbol \<noteq> None) ?h"
    by simp
  have ne: "nonempty_frames ?d"
    by (simp add: nonempty_frames_def)
  note t = investment_weights [OF s, of ?d]
  from t have "emap (\<lambda>(symbol, h). holding_weight ?h h) (present_holdings ?h ?d)
           = Inr (map (\<lambda>(symbol, h). investment h / sum_investments ?h)
                    (present_holdings ?h ?d))"
    by blast
  then have a: "emap (\<lambda>(symbol, h). holding_weight ?h h) (present_holdings ?h ?d)
      = Inr [1 / 4, 3 / 4]"
    unfolding p by (simp add: sum_investments_def investment_def)
  from t all have "sum_list (map (\<lambda>(symbol, h). investment h / sum_investments ?h)
      (present_holdings ?h ?d)) = 1"
    by blast
  then have b: "sum_list [1 / 4, 3 / 4 :: real] = 1"
    unfolding p by (simp add: sum_investments_def investment_def)
  from t ne obtain st where st: "performance_loop ?h ?d = Inr st"
    and ti: "total_investment st = sum_investments (present_holdings ?h ?d)"
    and wr: "weighted_returns st
        = fsum (map (\<lambda>(symbol, h). fmul (stock_return_of ?d symbol h)
                        (Finite (investment h / sum_investments ?h)))
                  (present_holdings ?h ?d))"
    by blast
  from ti have ti': "total_investment st = 400"
    unfolding p by (simp add: sum_investments_def investment_def)
  from wr have wr': "weighted_returns st = Finite (- 7 / 20)"
    unfolding p
    by (simp add: sum_investments_def investment_def stock_return_of_def sample_bar_def fsum_def)
  from a b st ti' wr' show ?thesis
    by blast
qed

section \<open>Sharpe ratio and drawdown\<close>

lemma performance_total: "\<exists>m. calculate_portfolio_performance holdings all_data = Inr m"
  unfolding calculate_portfolio_performance_def by (rule try_except_total)

text \<open>
  C7. When the computed portfolio volatility is 0, every metrics mapping that
  \<^verbatim>\<open>calculate_portfolio_performance\<close> returns has 0 under \<^verbatim>\<open>sharpe_ratio\<close>, whatever the
  accumulated weighted return is; when the loop fails the result is the empty mapping.
\<close>

theorem sharpe_zero_volatility:
  assumes "calculate_portfolio_volatility holdings all_data = Finite 0"
  shows "(\<forall>st. performance_loop holdings all_data = Inr st \<longrightarrow>
            (\<exists>m. calculate_portfolio_performance holdings all_data = Inr m
               \<and> map_of m ''sharpe_ratio'' = Some (Finite 0)
               \<and> map_of m ''weighted_return_pct'' = Some (fmul (weighted_returns st) (Finite 100))))
    \<and> (\<forall>e. performance_loop holdings all_data = Inl e \<longrightarrow>
            calculate_portfolio_performance holdings all_data = Inr [])"
proof -
  have nz: "\<not> fgt (Finite 0) (Finite 0)"
    by simp
  show ?thesis
    unfolding calculate_portfolio_performance_def calculate_portfolio_performance_body_def assms
    by (simp add: Let_def)
qed

theorem sharpe_zero_volatility_witness:
  "(\<exists>m. calculate_portfolio_performance
          [(''AAPL'', \<lparr>shares = 10, purchase_price = 150\<rparr>)]
          [(''AAPL'', [sample_bar 160 166 159 165 1000])] = Inr m
      \<and> map_of m ''sharpe_ratio'' = Some (Finite 0)
      \<and> map_of m ''weighted_return_pct'' = Some (Finite 10))
   \<and> calculate_portfolio_performance
          [(''AAPL'', \<lparr>shares = 10, purchase_price = 150\<rparr>)] [(''AAPL'', [])] = Inr []"
proof -
  let ?h = "[(''AAPL'', \<lparr>shares = 10, purchase_price = 150\<rparr>)]"
  let ?d = "[(''AAPL'', [sample_bar 160 166 159 165 1000])]"
  let ?e = "[(''AAPL'', [] :: dataframe)]"
  have vol: "calculate_portfolio_volatility ?h ?d = Finite 0"
    by (simp add: calculate_portfolio_volatility_def calculate_portfolio_volatility_days_def
        portfolio_returns_def)
  have loop: "performance_loop ?h ?d
      = Inr \<lparr>total_investment = 1500, current_value = Finite 1650, total_shares = 10,
             weighted_returns = Finite (1 / 10)\<rparr>"
    by (simp add: performance_loop_def performance_step_def holding_weight_def py_div_def
        sum_investments_def investment_def sample_bar_def iloc_def Let_def)
  from sharpe_zero_volatility [OF vol] loop
  have a: "\<exists>m. calculate_portfolio_performance ?h ?d = Inr m
      \<and> map_of m ''sharpe_ratio'' = Some (Finite 0)
      \<and> map_of m ''weighted_return_pct'' = Some (Finite 10)"
    by simp
  have vol': "calculate_portfolio_volatility ?h ?e = Finite 0"
    by (simp add: calculate_portfolio_volatility_def calculate_portfolio_volatility_days_def
        portfolio_returns_def)
  have loop': "performance_loop ?h ?e = Inl IndexError"
    by (simp add: performance_loop_def performance_step_def iloc_def)
  from sharpe_zero_volatility [OF vol'] loop'
  have b: "calculate_portfolio_performance ?h ?e = Inr []"
    by blast
  from a b show ?thesis
    by (rule conjI)
qed

text \<open>
  C6. One holding and price data for another symbol only: every daily value is 0, the
  drawdown is 0/0 and the result is NaN, not a number in [0, 1].
\<close>

theorem max_drawdown_disjoint_maps:
  "calculate_max_drawdown
     [(''AAPL'', \<lparr>shares = 10, purchase_price = 150\<rparr>)]
     [(''MSFT'', [sample_bar 100 100 100 100 0, sample_bar 101 101 101 101 0])] = NaN"
  by code_simp

section \<open>The drawdown when a holding has price data\<close>

lemma fold_min_length_le:
  "fold (\<lambda>(s, d) m. min (length d) m) xs m0 \<le> m0
   \<and> (\<forall>(s, d) \<in> set xs. fold (\<lambda>(s, d) m. min (length d) m) xs m0 \<le> length d)"
proof (induction xs arbitrary: m0)
  case Nil
  then show ?case by simp
next
  case (Cons x xs)
  obtain s d where x: "x = (s, d)"
    by (cases x)
  from Cons.IH [of "min (length d) m0"] show ?case
    by (auto simp: x)
qed

lemma min_length_le:
  assumes "(s, d) \<in> set all_data"
  shows "min_length all_data \<le> length d"
proof (cases all_data)
  case Nil
  with assms show ?thesis by simp
next
  case (Cons p rest)
  obtain s0 d0 where p: "p = (s0, d0)"
    by (cases p)
  from assms Cons p consider "d = d0" | "(s, d) \<in> set rest"
    by auto
  then show ?thesis
  proof cases
    case 1
    then show ?thesis
      using fold_min_length_le [of rest "length d0"] by (simp add: min_length_def Cons p)
  next
    case 2
    then show ?thesis
      using fold_min_length_le [of rest "length d0"] by (auto simp: min_length_def Cons p)
  qed
qed

lemma np_maximum_Finite [simp]: "np_maximum (Finite a) (Finite b) = Finite (max a b)"
  by (simp add: np_maximum_def max_def)

lemma np_minimum_Finite [simp]: "np_minimum (Finite a) (Finite b) = Finite (min a b)"
  by (simp add: np_minimum_def min_def)

lemma accumulate_from_Finite:
  "accumulate_from (Finite p) (map Finite xs) = map Finite (running_max p xs)"
  by (induction xs arbitrary: p) simp_all

lemma maximum_accumulate_Finite: "maximum_accumulate (map Finite xs) = map Finite (peaks_of xs)"
  by (cases xs) (simp_all add: maximum_accumulate_def peaks_of_def accumulate_from_Finite)

lemma length_running_max [simp]: "length (running_max p xs) = length xs"
  by (induction xs arbitrary: p) simp_all

lemma length_peaks_of [simp]: "length (peaks_of xs) = length xs"
  by (cases xs) (simp_all add: peaks_of_def)

lemma running_max_ge:
  "i < length xs \<Longrightarrow> p \<le> running_max p xs ! i \<and> xs ! i \<le> running_max p xs ! i"
proof (induction xs arbitrary: p i)
  case Nil
  then show ?case by simp
next
  case (Cons x xs)
  show ?case
  proof (cases i)
    case 0
    then show ?thesis by simp
  next
    case (Suc j)
    with Cons.prems have "j < length xs"
      by simp
    from Cons.IH [OF this, of "max p x"] Suc show ?thesis
      by simp
  qed
qed

lemma peaks_of_ge: "i < length xs \<Longrightarrow> xs ! i \<le> peaks_of xs ! i"
proof (cases xs)
  case Nil
  then show "i < length xs \<Longrightarrow> ?thesis" by simp
next
  case (Cons x rest)
  assume i: "i < length xs"
  show ?thesis
  proof (cases i)
    case 0
    then show ?thesis
      by (simp add: Cons peaks_of_def)
  next
    case (Suc j)
    with i Cons have "j < length rest"
      by simp
    from running_max_ge [OF this, of x] Suc show ?thesis
      by (simp add: Cons peaks_of_def)
  qed
qed

lemma running_max_sorted: "sorted (p # xs) \<Longrightarrow> running_max p xs = xs"
proof (induction xs arbitrary: p)
  case Nil
  then show ?case by simp
next
  case (Cons x xs)
  then have "p \<le> x" and "sorted (x # xs)"
    by simp_all
  with Cons.IH [of x] show ?case
    by (simp add: max_def)
qed

lemma peaks_of_sorted: "sorted xs \<Longrightarrow> peaks_of xs = xs"
  by (cases xs) (simp_all add: peaks_of_def running_max_sorted)

lemma drawdown_step_ok:
  assumes "positive_closes all_data" and "i < min_length all_data"
  shows "drawdown_step all_data i (Finite a) (symbol, h)
     = Inr (Finite (if map_of all_data symbol \<noteq> None
                    then a + shares h * fval (Close (the (map_of all_data symbol) ! i))
                    else a))"
proof (cases "map_of all_data symbol")
  case None
  then show ?thesis
    by (simp add: drawdown_step_def)
next
  case (Some df)
  then have "(symbol, df) \<in> set all_data"
    by (rule map_of_SomeD)
  then have "min_length all_data \<le> length df"
    by (rule min_length_le)
  with assms(2) have i: "i < length df"
    by simp
  from positive_closes_lookup [OF assms(1) Some i]
  obtain c where c: "Close (df ! i) = Finite c"
    by blast
  from i have "iloc (map Close df) (int i) = Inr (Close (df ! i))"
    using iloc_nat [of i "map Close df"] by simp
  with Some c show ?thesis
    by (simp add: drawdown_step_def)
qed

lemma efold_drawdown:
  assumes "positive_closes all_data" and "i < min_length all_data"
  shows "efold (drawdown_step all_data i) hs (Finite a)
     = Inr (Finite (a + sum_list
         (map (\<lambda>(symbol, h). shares h * fval (Close (the (map_of all_data symbol) ! i)))
            (present_holdings hs all_data))))"
proof (induction hs arbitrary: a)
  case Nil
  then show ?case
    by (simp add: present_holdings_def)
next
  case (Cons x hs)
  obtain symbol h where x: "x = (symbol, h)"
    by (cases x)
  show ?case
    unfolding x
    by (simp add: drawdown_step_ok [OF assms] Cons.IH present_holdings_def)
qed

lemma portfolio_values_ok:
  assumes "positive_closes all_data"
  shows "portfolio_values holdings all_data = Inr (map Finite (value_series holdings all_data))"
proof -
  have "emap (\<lambda>i. efold (drawdown_step all_data i) holdings (Finite 0)) [0..<min_length all_data]
      = Inr (map (\<lambda>i. Finite (value_at holdings all_data i)) [0..<min_length all_data])"
  proof (rule emap_Inr)
    fix i assume "i \<in> set [0..<min_length all_data]"
    then have "i < min_length all_data"
      by simp
    from efold_drawdown [OF assms this, of holdings 0]
    show "efold (drawdown_step all_data i) holdings (Finite 0)
        = Inr (Finite (value_at holdings all_data i))"
      by (simp add: value_at_def)
  qed
  then show ?thesis
    by (simp add: portfolio_values_def value_series_def comp_def)
qed

lemma sum_list_pos:
  "xs \<noteq> [] \<Longrightarrow> (\<And>x. x \<in> set xs \<Longrightarrow> 0 < (x :: real)) \<Longrightarrow> 0 < sum_list xs"
proof (induction xs)
  case Nil
  then show ?case by simp
next
  case (Cons x xs)
  show ?case
  proof (cases "xs = []")
    case True
    with Cons.prems show ?thesis by simp
  next
    case False
    with Cons have "0 < sum_list xs" and "0 < x"
      by simp_all
    then show ?thesis by simp
  qed
qed

lemma value_at_pos:
  assumes "positive_closes all_data" and "positive_shares holdings"
    and "present_holdings holdings all_data \<noteq> []" and "i < min_length all_data"
  shows "0 < value_at holdings all_data i"
  unfolding value_at_def
proof (rule sum_list_pos)
  show "map (\<lambda>(symbol, h). shares h * fval (Close (the (map_of all_data symbol) ! i)))
      (present_holdings holdings all_data) \<noteq> []"
    using assms(3) by simp
next
  fix x
  assume "x \<in> set (map (\<lambda>(symbol, h). shares h * fval (Close (the (map_of all_data symbol) ! i)))
      (present_holdings holdings all_data))"
  then obtain symbol h where e: "(symbol, h) \<in> set (present_holdings holdings all_data)"
    and x: "x = shares h * fval (Close (the (map_of all_data symbol) ! i))"
    by auto
  from e have mem: "(symbol, h) \<in> set holdings" and "map_of all_data symbol \<noteq> None"
    by (auto simp: present_holdings_def)
  then obtain df where df: "map_of all_data symbol = Some df"
    by blast
  then have "(symbol, df) \<in> set all_data"
    by (rule map_of_SomeD)
  then have "min_length all_data \<le> length df"
    by (rule min_length_le)
  with assms(4) have "i < length df"
    by simp
  from positive_closes_lookup [OF assms(1) df this]
  obtain c where "Close (df ! i) = Finite c" "0 < c"
    by blast
  moreover from assms(2) mem have "0 < shares h"
    by (auto simp: positive_shares_def list_all_iff)
  ultimately show "0 < x"
    by (simp add: x df)
qed

lemma drawdowns_Finite:
  assumes "\<forall>v \<in> set vs. 0 < v"
  shows "drawdowns (map Finite vs) = map Finite (real_drawdowns vs)"
proof (rule nth_equalityI)
  show "length (drawdowns (map Finite vs)) = length (map Finite (real_drawdowns vs))"
    by (simp add: drawdowns_def real_drawdowns_def maximum_accumulate_Finite)
next
  fix i assume "i < length (drawdowns (map Finite vs))"
  then have i: "i < length vs"
    by (simp add: drawdowns_def maximum_accumulate_Finite)
  with assms have "0 < vs ! i"
    by simp
  with peaks_of_ge [OF i] have "peaks_of vs ! i \<noteq> 0"
    by linarith
  with i show "drawdowns (map Finite vs) ! i = map Finite (real_drawdowns vs) ! i"
    by (simp add: drawdowns_def real_drawdowns_def maximum_accumulate_Finite)
qed

lemma real_drawdowns_range:
  assumes "\<forall>v \<in> set vs. 0 < v" and "d \<in> set (real_drawdowns vs)"
  shows "- 1 < d \<and> d \<le> 0"
proof -
  from assms(2) obtain i where i: "i < length vs"
    and d: "d = (vs ! i - peaks_of vs ! i) / peaks_of vs ! i"
    by (auto simp: real_drawdowns_def in_set_conv_nth)
  from assms(1) i have v: "0 < vs ! i"
    by simp
  from peaks_of_ge [OF i] have le: "vs ! i \<le> peaks_of vs ! i" .
  with v have p: "0 < peaks_of vs ! i"
    by linarith
  from le p have "d \<le> 0"
    by (simp add: d divide_le_0_iff)
  moreover have "- 1 < d"
  proof -
    have "d = vs ! i / peaks_of vs ! i - 1"
      using p by (simp add: d diff_divide_distrib)
    moreover from v p have "0 < vs ! i / peaks_of vs ! i"
      by simp
    ultimately show ?thesis
      by linarith
  qed
  ultimately show ?thesis
    by simp
qed

lemma fold_min_Finite:
  "fold (\<lambda>y m. np_minimum m y) (map Finite ys) (Finite x) = Finite (fold (\<lambda>y m. min m y) ys x)"
  by (induction ys arbitrary: x) simp_all

lemma fold_min_mem: "fold (\<lambda>y m. min m y) ys x \<in> set (x # ys)"
proof (induction ys arbitrary: x)
  case Nil
  then show ?case by simp
next
  case (Cons y ys)
  from Cons.IH [of "min x y"] show ?case
    by (auto simp: min_def split: if_splits)
qed

lemma np_min_Finite:
  "ds \<noteq> [] \<Longrightarrow> \<exists>m. np_min (map Finite ds) = Finite m \<and> m \<in> set ds"
proof -
  assume "ds \<noteq> []"
  then obtain x ys where ds: "ds = x # ys"
    by (cases ds) auto
  have "np_min (map Finite ds) = Finite (fold (\<lambda>y m. min m y) ys x)"
    by (simp add: np_min_def ds fold_min_Finite)
  moreover have "fold (\<lambda>y m. min m y) ys x \<in> set ds"
    unfolding ds by (rule fold_min_mem)
  ultimately show ?thesis
    by blast
qed

lemma real_drawdowns_sorted:
  assumes "\<forall>v \<in> set vs. 0 < v" and "sorted vs"
  shows "\<forall>d \<in> set (real_drawdowns vs). d = 0"
  using assms by (auto simp: real_drawdowns_def peaks_of_sorted in_set_conv_nth)

lemma length_real_drawdowns [simp]: "length (real_drawdowns vs) = length vs"
  by (simp add: real_drawdowns_def)

text \<open>
  With positive shares, positive closes and at least one holding that has price data,
  the maximum drawdown is a number in [0, 1), and it is 0 when the value series never
  falls.
\<close>

lemma max_drawdown_in_unit_interval:
  assumes "holdings \<noteq> []" and "all_data \<noteq> []"
    and "positive_shares holdings" and "positive_closes all_data"
    and "present_holdings holdings all_data \<noteq> []"
  shows "\<exists>d. calculate_max_drawdown holdings all_data = Finite d \<and> 0 \<le> d \<and> d < 1
      \<and> (sorted (value_series holdings all_data) \<longrightarrow> d = 0)"
proof -
  let ?vs = "value_series holdings all_data"
  have pos: "\<forall>v \<in> set ?vs. 0 < v"
    using value_at_pos [OF assms(4,3,5)] by (auto simp: value_series_def)
  have dd: "drawdowns (map Finite ?vs) = map Finite (real_drawdowns ?vs)"
    using pos by (rule drawdowns_Finite)
  have "calculate_max_drawdown holdings all_data
      = (if 0 < length (drawdowns (map Finite ?vs))
         then fabs (np_min (drawdowns (map Finite ?vs))) else Finite 0)"
    using assms(1,2)
    by (simp add: calculate_max_drawdown_def portfolio_values_ok [OF assms(4)])
  then have res: "calculate_max_drawdown holdings all_data
      = (if 0 < length ?vs then fabs (np_min (map Finite (real_drawdowns ?vs))) else Finite 0)"
    unfolding dd by simp
  show ?thesis
  proof (cases "?vs = []")
    case True
    then show ?thesis
      unfolding res by simp
  next
    case False
    then have "real_drawdowns ?vs \<noteq> []"
      by (rule same_length_ne [rotated]) simp
    from np_min_Finite [OF this] obtain m
      where m: "np_min (map Finite (real_drawdowns ?vs)) = Finite m"
        and mem: "m \<in> set (real_drawdowns ?vs)"
      by blast
    from real_drawdowns_range [OF pos mem] have r: "- 1 < m" "m \<le> 0"
      by simp_all
    have z: "m = 0" if "sorted ?vs"
      using real_drawdowns_sorted [OF pos that] mem by blast
    from False have "calculate_max_drawdown holdings all_data = Finite \<bar>m\<bar>"
      unfolding res by (simp add: m fabs_def)
    with r z show ?thesis
      by auto
  qed
qed

section \<open>The equities export\<close>






lemma nrows_setitem [simp]: "nrows (setitem df n vals) = nrows df"
  by (simp add: setitem_def)


























section \<open>Exceptions\<close>



lemma calculate_metrics_cases:
  "calculate_metrics (Some data) info
     = (if data = [] then Inr []
        else case calculate_metrics_body data info of Inl e \<Rightarrow> Inr [] | Inr m \<Rightarrow> Inr m)"
  by (simp add: calculate_metrics_def try_except_def)

lemma calculate_technical_indicators_cases:
  "calculate_technical_indicators (Some data)
     = (if data = [] then Inr []
        else case calculate_technical_indicators_body data of Inl e \<Rightarrow> Inr [] | Inr m \<Rightarrow> Inr m)"
  by (simp add: calculate_technical_indicators_def try_except_def)

text \<open>
  C9 (as amended). For every DataFrame argument, empty or not, \<^verbatim>\<open>calculate_metrics\<close> and
  \<^verbatim>\<open>calculate_technical_indicators\<close> return a mapping; for all holdings and price
  data \<^verbatim>\<open>calculate_portfolio_performance\<close> returns a mapping; for every fetch result,
  a missing one (\<^verbatim>\<open>None\<close>) included, the two exporters return a text. An empty frame
  gives the empty mapping and the empty string, and so does every exception raised
  inside a \<^verbatim>\<open>try\<close> block.
\<close>

theorem exceptions_are_caught:
  "(\<exists>m. calculate_metrics (Some data) info = Inr m)
   \<and> calculate_metrics (Some []) info = Inr []
   \<and> (\<forall>e. calculate_metrics_body data info = Inl e \<longrightarrow>
         calculate_metrics (Some data) info = Inr [])
   \<and> (\<exists>m. calculate_technical_indicators (Some data) = Inr m)
   \<and> calculate_technical_indicators (Some []) = Inr []
   \<and> (\<forall>e. calculate_technical_indicators_body data = Inl e \<longrightarrow>
         calculate_technical_indicators (Some data) = Inr [])
   \<and> (\<exists>m. calculate_portfolio_performance holdings all_data = Inr m)
   \<and> (\<forall>e. calculate_portfolio_performance_body holdings all_data = Inl e \<longrightarrow>
         calculate_portfolio_performance holdings all_data = Inr [])
   \<and> (\<exists>t. export_stock_historical_data fetched info symbol period now = Inr t)
   \<and> export_stock_historical_data None info symbol period now = Inr EmptyText
   \<and> (\<forall>df. frame_empty df \<longrightarrow>
         export_stock_historical_data (Some df) info symbol period now = Inr EmptyText)
   \<and> (\<forall>e. export_stock_body fetched info symbol period now = Inl e \<longrightarrow>
         export_stock_historical_data fetched info symbol period now = Inr EmptyText)
   \<and> (\<exists>t. export_crypto_data fetched = Inr t)
   \<and> export_crypto_data None = Inr EmptyText
   \<and> (\<forall>df. frame_empty df \<longrightarrow> export_crypto_data (Some df) = Inr EmptyText)
   \<and> (\<forall>e. export_crypto_body fetched = Inl e \<longrightarrow> export_crypto_data fetched = Inr EmptyText)"
proof -
  have m1: "\<exists>m. calculate_metrics (Some data) info = Inr m"
    by (simp add: calculate_metrics_cases split: sum.splits)
  have m2: "calculate_metrics (Some []) info = Inr []"
    by (simp add: calculate_metrics_cases)
  have m3: "\<forall>e. calculate_metrics_body data info = Inl e \<longrightarrow>
         calculate_metrics (Some data) info = Inr []"
    by (auto simp: calculate_metrics_cases)
  have t1: "\<exists>m. calculate_technical_indicators (Some data) = Inr m"
    by (simp add: calculate_technical_indicators_cases split: sum.splits)
  have t2: "calculate_technical_indicators (Some []) = Inr []"
    by (simp add: calculate_technical_indicators_cases)
  have t3: "\<forall>e. calculate_technical_indicators_body data = Inl e \<longrightarrow>
         calculate_technical_indicators (Some data) = Inr []"
    by (auto simp: calculate_technical_indicators_cases)
  have p1: "\<exists>m. calculate_portfolio_performance holdings all_data = Inr m"
    by (rule performance_total)
  have p2: "\<forall>e. calculate_portfolio_performance_body holdings all_data = Inl e \<longrightarrow>
         calculate_portfolio_performance holdings all_data = Inr []"
    by (simp add: calculate_portfolio_performance_def)
  have e1: "\<exists>t. export_stock_historical_data fetched info symbol period now = Inr t"
    unfolding export_stock_historical_data_def by (rule try_except_total)
  have e2: "export_stock_historical_data None info symbol period now = Inr EmptyText"
    by (simp add: export_stock_historical_data_def export_stock_body_def)
  have e3: "\<forall>df. frame_empty df \<longrightarrow>
         export_stock_historical_data (Some df) info symbol period now = Inr EmptyText"
    by (simp add: export_stock_historical_data_def export_stock_body_def)
  have e4: "\<forall>e. export_stock_body fetched info symbol period now = Inl e \<longrightarrow>
         export_stock_historical_data fetched info symbol period now = Inr EmptyText"
    by (simp add: export_stock_historical_data_def)
  have c1: "\<exists>t. export_crypto_data fetched = Inr t"
    unfolding export_crypto_data_def by (rule try_except_total)
  have c2: "export_crypto_data None = Inr EmptyText"
    by (simp add: export_crypto_data_def export_crypto_body_def)
  have c3: "\<forall>df. frame_empty df \<longrightarrow> export_crypto_data (Some df) = Inr EmptyText"
    by (simp add: export_crypto_data_def export_crypto_body_def)
  have c4: "\<forall>e. export_crypto_body fetched = Inl e \<longrightarrow> export_crypto_data fetched = Inr EmptyText"
    by (simp add: export_crypto_data_def)
  from m1 m2 m3 t1 t2 t3 p1 p2 e1 e2 e3 e4 c1 c2 c3 c4 show ?thesis
    by (intro conjI)
qed

text \<open>
  \<^verbatim>\<open>calculate_metrics(None, info)\<close>: the emptiness test is not inside the \<^verbatim>\<open>try\<close> block,
  and its \<^verbatim>\<open>AttributeError\<close> reaches the caller.
\<close>

theorem metrics_of_none_counterexample:
  "calculate_metrics None (\<lambda>k. None) = Inl AttributeError
   \<and> calculate_technical_indicators None = Inl AttributeError"
  by (simp add: calculate_metrics_def calculate_technical_indicators_def)

text \<open>
  A bar whose volume is NaN makes \<^verbatim>\<open>int(current_volume)\<close> raise inside the \<^verbatim>\<open>try\<close> block
  of \<^verbatim>\<open>calculate_metrics\<close>; a holding whose series is empty makes the loop of
  \<^verbatim>\<open>calculate_portfolio_performance\<close> raise; a frame without price columns makes the
  first assignment of each exporter raise.
\<close>

theorem exceptions_are_caught_witness:
  "calculate_metrics_body
      [\<lparr>Date = [], Open = Finite 1, High = Finite 1, Low = Finite 1, Close = Finite 1,
        Volume = NaN\<rparr>] (\<lambda>k. None) = Inl ValueError
   \<and> calculate_metrics
      (Some [\<lparr>Date = [], Open = Finite 1, High = Finite 1, Low = Finite 1, Close = Finite 1,
        Volume = NaN\<rparr>]) (\<lambda>k. None) = Inr []
   \<and> calculate_technical_indicators_body [] = Inl IndexError
   \<and> calculate_technical_indicators (Some []) = Inr []
   \<and> calculate_portfolio_performance_body
        [(''AAPL'', \<lparr>shares = 10, purchase_price = 150\<rparr>)] [(''AAPL'', [])] = Inl IndexError
   \<and> calculate_portfolio_performance
        [(''AAPL'', \<lparr>shares = 10, purchase_price = 150\<rparr>)] [(''AAPL'', [])] = Inr []
   \<and> export_stock_body (Some \<lparr>nrows = 1, columns = [(''Date'', [Str ''2024-01-02''])]\<rparr>)
        (\<lambda>k. None) ''AAPL'' ''1y'' ''2024-01-04 10:00:00'' = Inl KeyError
   \<and> export_stock_historical_data
        (Some \<lparr>nrows = 1, columns = [(''Date'', [Str ''2024-01-02''])]\<rparr>)
        (\<lambda>k. None) ''AAPL'' ''1y'' ''2024-01-04 10:00:00'' = Inr EmptyText
   \<and> export_stock_historical_data (Some \<lparr>nrows = 0, columns = []\<rparr>)
        (\<lambda>k. None) ''AAPL'' ''1y'' ''2024-01-04 10:00:00'' = Inr EmptyText
   \<and> export_crypto_body (Some \<lparr>nrows = 1, columns = [(''Date'', [Str ''2024-01-02''])]\<rparr>)
        = Inl KeyError
   \<and> export_crypto_data (Some \<lparr>nrows = 1, columns = [(''Date'', [Str ''2024-01-02''])]\<rparr>)
        = Inr EmptyText
   \<and> export_crypto_data (Some \<lparr>nrows = 0, columns = []\<rparr>) = Inr EmptyText"
proof -
  let ?d = "[\<lparr>Date = [], Open = Finite 1, High = Finite 1, Low = Finite 1, Close = Finite 1,
        Volume = NaN\<rparr>]"
  let ?i = "\<lambda>k :: string. None :: pyval option"
  let ?f = "Some \<lparr>nrows = 1, columns = [(''Date'', [Str ''2024-01-02''])]\<rparr>"
  let ?z = "\<lparr>nrows = 0, columns = []\<rparr>"
  let ?h = "[(''AAPL'', \<lparr>shares = 10, purchase_price = 150\<rparr>)]"
  let ?e = "[(''AAPL'', [] :: dataframe)]"
  have a: "calculate_metrics_body ?d ?i = Inl ValueError"
    by (simp add: calculate_metrics_body_def iloc_def py_int_def Let_def format_market_cap_def
        dict_get_def feq_def)
  have b: "calculate_technical_indicators_body [] = Inl IndexError"
    by (simp add: calculate_technical_indicators_body_def rolling_mean_def iloc_def)
  have c: "calculate_portfolio_performance_body ?h ?e = Inl IndexError"
    by (simp add: calculate_portfolio_performance_body_def performance_loop_def
        performance_step_def iloc_def)
  have d: "export_stock_body ?f ?i ''AAPL'' ''1y'' ''2024-01-04 10:00:00'' = Inl KeyError"
    by (simp add: export_stock_body_def frame_empty_def add_calculated_fields_def assign_def
        close_minus_open_def float_column_def getitem_def)
  have e: "export_crypto_body ?f = Inl KeyError"
    by (simp add: export_crypto_body_def frame_empty_def assign_def crypto_daily_return_def
        float_column_def getitem_def)
  have z: "frame_empty ?z"
    by (simp add: frame_empty_def)
  note t = exceptions_are_caught [where data = ?d and info = ?i and fetched = ?f
      and holdings = ?h and all_data = ?e
      and symbol = "''AAPL''" and period = "''1y''" and now = "''2024-01-04 10:00:00''"]
  note u = exceptions_are_caught [where data = "[]"]
  from t a have a': "calculate_metrics (Some ?d) ?i = Inr []"
    by blast
  from u b have b': "calculate_technical_indicators (Some []) = Inr []"
    by blast
  from t c have c': "calculate_portfolio_performance ?h ?e = Inr []"
    by blast
  from t d have d': "export_stock_historical_data ?f ?i ''AAPL'' ''1y'' ''2024-01-04 10:00:00''
      = Inr EmptyText"
    by blast
  from t z have z': "export_stock_historical_data (Some ?z) ?i ''AAPL'' ''1y''
      ''2024-01-04 10:00:00'' = Inr EmptyText"
    by blast
  from t e have e': "export_crypto_data ?f = Inr EmptyText"
    by blast
  from t z have z'': "export_crypto_data (Some ?z) = Inr EmptyText"
    by blast
  from a a' b b' c c' d d' z' e e' z'' show ?thesis
    by (intro conjI)
qed

end
